theory Spec2Isabelle
  imports Main
begin

section \<open>Errors of the client\<close>

text \<open>
  Every \<^verbatim>\<open>throw\<close> of the TypeScript sources is a value of \<open>js_error\<close>:
  \<open>Error msg\<close> is \<^verbatim>\<open>new Error(msg)\<close> and \<open>TypeError\<close> is what the runtime raises
  when a property of \<^verbatim>\<open>undefined\<close> or \<^verbatim>\<open>null\<close> is read.

  Modelled from the spec: \<^verbatim>\<open>newBackendError\<close> of Error.ts and the error of a stale
  state of State.ts, neither of which is among the source files. \<open>BackendError e\<close> is the
  backend error that wraps the caught error \<open>e\<close>; \<open>StaleStateError\<close> is the error of
  using a state object that was discarded.
\<close>

datatype js_error =
    Error string
  | TypeError
  | BackendError js_error
  | StaleStateError

text \<open>\<^verbatim>\<open>Array.prototype.join\<close> on an array of strings.\<close>

fun join :: "string \<Rightarrow> string list \<Rightarrow> string" where
  "join sep [] = []"
| "join sep [x] = x"
| "join sep (x # y # ys) = x @ sep @ join sep (y # ys)"

section \<open>Logion classification (license/LogionClassification.ts)\<close>

text \<open>The code \<^verbatim>\<open>"EX"\<close> is written \<open>EXCL\<close>: \<open>EX\<close> is reserved syntax of HOL.\<close>

datatype LogionTransferredRightCode =
    PER_PRIV | PER_PUB | COM_NOMOD | COM_MOD | EXCL | NOEX | WW | REG | NOTIME | TIME

fun codeText :: "LogionTransferredRightCode \<Rightarrow> string" where
  "codeText PER_PRIV = ''PER-PRIV''"
| "codeText PER_PUB = ''PER-PUB''"
| "codeText COM_NOMOD = ''COM-NOMOD''"
| "codeText COM_MOD = ''COM-MOD''"
| "codeText EXCL = ''EX''"
| "codeText NOEX = ''NOEX''"
| "codeText WW = ''WW''"
| "codeText REG = ''REG''"
| "codeText NOTIME = ''NOTIME''"
| "codeText TIME = ''TIME''"

record LogionLicenseParameters =
  transferredRights :: "LogionTransferredRightCode list"
  regionalLimit :: "string list option"
  expiration :: "string option"

text \<open>The two conditions declared at the head of \<^verbatim>\<open>checkValidity\<close>.\<close>

definition expirationSet :: "LogionLicenseParameters \<Rightarrow> bool" where
  "expirationSet params =
     (case expiration params of None \<Rightarrow> False | Some e \<Rightarrow> length e > 0)"

definition regionalLimitSet :: "LogionLicenseParameters \<Rightarrow> bool" where
  "regionalLimitSet params =
     (case regionalLimit params of None \<Rightarrow> False | Some l \<Rightarrow> length l > 0)"

text \<open>
  The class \<^verbatim>\<open>Validator\<close>: the parameters it was built with and the errors pushed
  so far. Each method returns the validator, so the calls chain.
\<close>

record Validator =
  parameters :: LogionLicenseParameters
  errors :: "string list"

definition newValidator :: "LogionLicenseParameters \<Rightarrow> Validator" where
  "newValidator params = \<lparr> parameters = params, errors = [] \<rparr>"

definition includesCode :: "Validator \<Rightarrow> LogionTransferredRightCode \<Rightarrow> bool" where
  "includesCode v code = (code \<in> set (transferredRights (parameters v)))"

definition push :: "string \<Rightarrow> Validator \<Rightarrow> Validator" where
  "push msg v = v\<lparr> errors := errors v @ [msg] \<rparr>"

definition exclusiveMessage ::
  "LogionTransferredRightCode \<Rightarrow> LogionTransferredRightCode \<Rightarrow> string" where
  "exclusiveMessage code1 code2 =
     ''Transferred rights are mutually exclusive: '' @ codeText code1 @ '' and '' @ codeText code2"

definition mutuallyExclusive ::
  "LogionTransferredRightCode \<Rightarrow> LogionTransferredRightCode \<Rightarrow> Validator \<Rightarrow> Validator" where
  "mutuallyExclusive code1 code2 v =
     (if includesCode v code1 \<and> includesCode v code2 then push (exclusiveMessage code1 code2) v else v)"

definition codePresentForCondition ::
  "LogionTransferredRightCode \<Rightarrow> (LogionLicenseParameters \<Rightarrow> bool) \<Rightarrow> string
     \<Rightarrow> Validator \<Rightarrow> Validator" where
  "codePresentForCondition code condition message v =
     (let v1 = (if \<not> includesCode v code \<and> condition (parameters v) then push message v else v);
          v2 = (if includesCode v1 code \<and> \<not> condition (parameters v1) then push message v1 else v1)
      in v2)"

text \<open>
  \<^verbatim>\<open>DateTime.fromISO(date).isValid\<close> belongs to the luxon library; it is the
  parameter \<open>isValidISO\<close>. The guard \<^verbatim>\<open>if (date)\<close> skips \<^verbatim>\<open>undefined\<close> and the
  empty string.
\<close>

definition validIsoDate ::
  "(string \<Rightarrow> bool) \<Rightarrow> string option \<Rightarrow> Validator \<Rightarrow> Validator" where
  "validIsoDate isValidISO date v =
     (case date of
        None \<Rightarrow> v
      | Some d \<Rightarrow>
          if d \<noteq> [] then (if \<not> isValidISO d then push ''Invalid date'' v else v) else v)"

definition validOrThrow :: "Validator \<Rightarrow> js_error + unit" where
  "validOrThrow v =
     (if length (errors v) > 0 then Inl (Error (join ''; '' (errors v))) else Inr ())"

definition timeMessage :: string where
  "timeMessage = ''Transferred right TIME must be set if and only if expiration is set''"

definition regMessage :: string where
  "regMessage = ''Transferred right REG must be set if and only if a regional limit is set''"

definition checkValidity ::
  "(string \<Rightarrow> bool) \<Rightarrow> LogionLicenseParameters \<Rightarrow> js_error + unit" where
  "checkValidity isValidISO params =
     validOrThrow
       (validIsoDate isValidISO (expiration params)
         (codePresentForCondition REG regionalLimitSet regMessage
           (codePresentForCondition TIME expirationSet timeMessage
             (mutuallyExclusive TIME NOTIME
               (mutuallyExclusive REG WW
                 (mutuallyExclusive EXCL NOEX
                   (mutuallyExclusive COM_NOMOD COM_MOD
                     (mutuallyExclusive PER_PRIV PER_PUB
                       (newValidator params)))))))))"

text \<open>
  The constructed element: its type tag is fixed to \<^verbatim>\<open>logion_classification\<close> by the
  constructor, so the object is its licence LOC id and its parameters.
\<close>

record LogionClassification =
  lc_tcLocId :: string
  lc_parameters :: LogionLicenseParameters

definition newLogionClassification ::
  "(string \<Rightarrow> bool) \<Rightarrow> string \<Rightarrow> LogionLicenseParameters \<Rightarrow> bool
     \<Rightarrow> js_error + LogionClassification" where
  "newLogionClassification isValidISO licenseLocId params check =
     (if check then
        (case checkValidity isValidISO params of
           Inl e \<Rightarrow> Inl e
         | Inr _ \<Rightarrow> Inr \<lparr> lc_tcLocId = licenseLocId, lc_parameters = params \<rparr>)
      else Inr \<lparr> lc_tcLocId = licenseLocId, lc_parameters = params \<rparr>)"

subsection \<open>The rules as the specification lists them\<close>

text \<open>
  The eight rules of the specification, in the order in which it lists them, with what it
  means for parameters to violate each one and the report that stands for the violation.
  "Set" is read as the source's own \<open>expirationSet\<close> and \<open>regionalLimitSet\<close>.
\<close>

datatype rule =
    Exclusive LogionTransferredRightCode LogionTransferredRightCode
  | TimeIffExpiration
  | RegIffRegionalLimit
  | ExpirationIsIsoDate

definition allRules :: "rule list" where
  "allRules =
     [Exclusive PER_PRIV PER_PUB, Exclusive COM_NOMOD COM_MOD, Exclusive EXCL NOEX,
      Exclusive REG WW, Exclusive TIME NOTIME,
      TimeIffExpiration, RegIffRegionalLimit, ExpirationIsIsoDate]"

fun violates :: "(string \<Rightarrow> bool) \<Rightarrow> LogionLicenseParameters \<Rightarrow> rule \<Rightarrow> bool" where
  "violates isValidISO p (Exclusive a b) =
     (a \<in> set (transferredRights p) \<and> b \<in> set (transferredRights p))"
| "violates isValidISO p TimeIffExpiration =
     ((TIME \<in> set (transferredRights p)) \<noteq> expirationSet p)"
| "violates isValidISO p RegIffRegionalLimit =
     ((REG \<in> set (transferredRights p)) \<noteq> regionalLimitSet p)"
| "violates isValidISO p ExpirationIsIsoDate =
     (expirationSet p \<and> \<not> isValidISO (the (expiration p)))"

fun report :: "rule \<Rightarrow> string" where
  "report (Exclusive a b) = exclusiveMessage a b"
| "report TimeIffExpiration = timeMessage"
| "report RegIffRegionalLimit = regMessage"
| "report ExpirationIsIsoDate = ''Invalid date''"

definition violations :: "(string \<Rightarrow> bool) \<Rightarrow> LogionLicenseParameters \<Rightarrow> rule list" where
  "violations isValidISO p = filter (violates isValidISO p) allRules"

section \<open>Token validation (Token.ts)\<close>

text \<open>Helpers for \<^verbatim>\<open>String.prototype.startsWith\<close> and \<^verbatim>\<open>String.prototype.includes\<close>.\<close>

fun startsWith :: "string \<Rightarrow> string \<Rightarrow> bool" where
  "startsWith s [] = True"
| "startsWith [] (p # ps) = False"
| "startsWith (c # cs) (p # ps) = (c = p \<and> startsWith cs ps)"

fun includesStr :: "string \<Rightarrow> string \<Rightarrow> bool" where
  "includesStr [] sub = (sub = [])"
| "includesStr (c # cs) sub = (startsWith (c # cs) sub \<or> includesStr cs sub)"

record ItemTokenWithRestrictedType =
  token_type :: string
  token_id :: string
  issuance :: int

record TokenValidationResult =
  valid :: bool
  error :: "string option"

text \<open>
  What \<^verbatim>\<open>JSON.parse\<close> returns. The parser itself belongs to the runtime and is a
  parameter (\<open>None\<close> when it throws); an object is the list of its key/value pairs,
  each key once.
\<close>

datatype json =
    JNull
  | JBool bool
  | JNumber int
  | JString string
  | JArray "json list"
  | JObject "(string \<times> json) list"

text \<open>
  \<^verbatim>\<open>idObject['contract']\<close>: reading a property of \<^verbatim>\<open>null\<close> raises a TypeError, an
  object gives the value stored under the key, and any other parsed value has no such
  property (\<^verbatim>\<open>undefined\<close>).
\<close>

fun property :: "json \<Rightarrow> string \<Rightarrow> js_error + json option" where
  "property JNull k = Inl TypeError"
| "property (JObject kvs) k = Inr (map_of kvs k)"
| "property j k = Inr None"

text \<open>\<^verbatim>\<open>!x\<close> for a property that was read: \<^verbatim>\<open>undefined\<close> and the falsy JSON values.\<close>

fun falsy :: "json option \<Rightarrow> bool" where
  "falsy None = True"
| "falsy (Some JNull) = True"
| "falsy (Some (JBool b)) = (\<not> b)"
| "falsy (Some (JNumber n)) = (n = 0)"
| "falsy (Some (JString s)) = (s = [])"
| "falsy (Some j) = False"

fun isJString :: "json option \<Rightarrow> bool" where
  "isJString (Some (JString s)) = True"
| "isJString j = False"

text \<open>
  The collaborators of \<^verbatim>\<open>validateToken\<close> that are not part of this repository: the JSON
  parser, \<^verbatim>\<open>isHex(id, 160)\<close> of @polkadot/util, \<^verbatim>\<open>AnyAccountId.isValidBech32Address(id, "erd1")\<close>
  and \<^verbatim>\<open>api.queries.isValidAccountId\<close> of the node API.
\<close>

record TokenApi =
  jsonParse :: "string \<Rightarrow> json option"
  isHexAddress :: "string \<Rightarrow> bool"
  isValidBech32Address :: "string \<Rightarrow> bool"
  isValidAccountId :: "string \<Rightarrow> bool"

definition isErcNft :: "string \<Rightarrow> bool" where
  "isErcNft t = (includesStr t ''erc721'' \<or> includesStr t ''erc1155'')"

definition invalid :: "string \<Rightarrow> TokenValidationResult" where
  "invalid msg = \<lparr> valid = False, error = Some msg \<rparr>"

definition validResult :: TokenValidationResult where
  "validResult = \<lparr> valid = True, error = None \<rparr>"

text \<open>A quoted word inside a message: \<^verbatim>\<open>'contract'\<close>.\<close>

definition quoted :: "string \<Rightarrow> string" where
  "quoted w = [CHR 0x27] @ w @ [CHR 0x27]"

text \<open>\<^verbatim>\<open>validateErcToken\<close> returns the result and, when valid, the parsed id object.\<close>

definition validateErcToken ::
  "TokenApi \<Rightarrow> ItemTokenWithRestrictedType \<Rightarrow> js_error + (TokenValidationResult \<times> json option)" where
  "validateErcToken api itemToken =
     (case jsonParse api (token_id itemToken) of
        None \<Rightarrow> Inr (invalid ''token ID is not a valid JSON object'', None)
      | Some idObject \<Rightarrow>
          (case property idObject ''contract'' of
             Inl e \<Rightarrow> Inl e
           | Inr contract \<Rightarrow>
               if falsy contract
               then Inr (invalid (''token ID is missing the '' @ quoted ''contract'' @ '' field''), None)
               else if \<not> isJString contract
               then Inr (invalid (''token ID'' @ [CHR 0x27] @ ''s '' @ quoted ''contract''
                                   @ '' field is not a string''), None)
               else Inr (validResult, Some idObject)))"

text \<open>The regular expression \<^verbatim>\<open>/^[0-9a-zA-Z\-_]+$/\<close>.\<close>

definition between :: "char \<Rightarrow> char \<Rightarrow> char \<Rightarrow> bool" where
  "between lo hi c = ((of_char lo :: nat) \<le> of_char c \<and> (of_char c :: nat) \<le> of_char hi)"

definition isDigit :: "char \<Rightarrow> bool" where
  "isDigit c = between (CHR ''0'') (CHR ''9'') c"

definition isUpper :: "char \<Rightarrow> bool" where
  "isUpper c = between (CHR ''A'') (CHR ''Z'') c"

definition isLower :: "char \<Rightarrow> bool" where
  "isLower c = between (CHR ''a'') (CHR ''z'') c"

definition isLowerHex :: "char \<Rightarrow> bool" where
  "isLowerHex c = (isDigit c \<or> between (CHR ''a'') (CHR ''f'') c)"

definition isSingularKusamaId :: "string \<Rightarrow> bool" where
  "isSingularKusamaId tokenId =
     (tokenId \<noteq> [] \<and>
      list_all (\<lambda>c. isDigit c \<or> isLower c \<or> isUpper c \<or> c = CHR ''-'' \<or> c = CHR ''_'') tokenId)"

text \<open>
  The regular expression \<^verbatim>\<open>/^[0-9A-Z]+-[0-9a-f]{6}(-[0-9a-f]+)?$/\<close>: the first group
  cannot hold a dash, so it is the longest prefix of digits and capitals.
\<close>

definition isMultiversxESDTId :: "string \<Rightarrow> bool" where
  "isMultiversxESDTId tokenId =
     (let ticker = takeWhile (\<lambda>c. isDigit c \<or> isUpper c) tokenId;
          rest = dropWhile (\<lambda>c. isDigit c \<or> isUpper c) tokenId
      in ticker \<noteq> [] \<and>
         (case rest of
            [] \<Rightarrow> False
          | d # after \<Rightarrow>
              d = CHR ''-'' \<and> length after \<ge> 6 \<and> list_all isLowerHex (take 6 after) \<and>
              (case drop 6 after of
                 [] \<Rightarrow> True
               | d2 # nonce \<Rightarrow> d2 = CHR ''-'' \<and> nonce \<noteq> [] \<and> list_all isLowerHex nonce)))"

definition validateToken ::
  "TokenApi \<Rightarrow> ItemTokenWithRestrictedType \<Rightarrow> js_error + TokenValidationResult" where
  "validateToken api itemToken =
     (if isErcNft (token_type itemToken) then
        (case validateErcToken api itemToken of
           Inl e \<Rightarrow> Inl e
         | Inr (result, idObject) \<Rightarrow>
             if valid result then
               (case idObject of
                  None \<Rightarrow> Inl TypeError
                | Some obj \<Rightarrow>
                    (case property obj ''id'' of
                       Inl e \<Rightarrow> Inl e
                     | Inr ident \<Rightarrow>
                         if falsy ident
                         then Inr (invalid (''token ID is missing the '' @ quoted ''id'' @ '' field''))
                         else if \<not> isJString ident
                         then Inr (invalid (''token ID'' @ [CHR 0x27] @ ''s '' @ quoted ''id''
                                             @ '' field is not a string''))
                         else Inr validResult))
             else Inr result)
      else if includesStr (token_type itemToken) ''erc20'' then
        (case validateErcToken api itemToken of
           Inl e \<Rightarrow> Inl e
         | Inr (result, idObject) \<Rightarrow> Inr result)
      else if token_type itemToken = ''owner'' then
        (if isHexAddress api (token_id itemToken)
            \<or> isValidBech32Address api (token_id itemToken)
            \<or> isValidAccountId api (token_id itemToken)
         then Inr validResult
         else Inr (invalid ''token ID must be a valid Ethereum, Polkadot or MultiversX address''))
      else if token_type itemToken = ''singular_kusama'' then
        (if isSingularKusamaId (token_id itemToken) then Inr validResult
         else Inr (invalid ''token ID must be a valid Singular Kusama ID''))
      else if startsWith (token_type itemToken) ''multiversx'' then
        (if isMultiversxESDTId (token_id itemToken) then Inr validResult
         else Inr (invalid ''token ID must be a valid MultiversX ESDT ID''))
      else Inr (invalid (''unsupported token type '' @ quoted (token_type itemToken))))"

text \<open>
  \<^verbatim>\<open>AuthenticatedLocClient.validTokenOrThrow\<close>. The test \<^verbatim>\<open>if(result.error)\<close> holds for
  a defined, non-empty string; the template \<^verbatim>\<open>${result.error}\<close> prints \<^verbatim>\<open>undefined\<close>
  for a missing error.
\<close>

definition truthyString :: "string option \<Rightarrow> bool" where
  "truthyString s = (case s of None \<Rightarrow> False | Some t \<Rightarrow> t \<noteq> [])"

definition templateString :: "string option \<Rightarrow> string" where
  "templateString s = (case s of None \<Rightarrow> ''undefined'' | Some t \<Rightarrow> t)"

definition validTokenOrThrow ::
  "TokenApi \<Rightarrow> ItemTokenWithRestrictedType \<Rightarrow> js_error + unit" where
  "validTokenOrThrow api itemToken =
     (case validateToken api itemToken of
        Inl e \<Rightarrow> Inl e
      | Inr result \<Rightarrow>
          if \<not> valid result then
            (if truthyString (error result)
             then Inl (Error ''Given token definition is invalid'')
             else Inl (Error (''Given token definition is invalid: '' @ templateString (error result))))
          else if issuance itemToken < 1 then Inl (Error ''Token must have an issuance >= 1'')
          else Inr ())"

section \<open>Content addressing: file payloads\<close>

text \<open>The decimal text of a \<^verbatim>\<open>bigint\<close> inside a template string.\<close>

fun showNat :: "nat \<Rightarrow> string" where
  "showNat n =
     (if n < 10 then [''0123456789'' ! n]
      else showNat (n div 10) @ [''0123456789'' ! (n mod 10)])"

definition showInt :: "int \<Rightarrow> string" where
  "showInt i = (if i < 0 then ''-'' @ showNat (nat (- i)) else showNat (nat i))"

text \<open>
  Modelled from the spec: the class \<^verbatim>\<open>HashOrContent\<close> (Hash.ts is not among the
  sources). A payload carries a content hash and a size that are either supplied directly
  or computed lazily from the raw content on first use (\<^verbatim>\<open>finalize\<close>); once computed,
  the pair is immutable for the lifetime of the object. A hash supplied together with
  content is checked against the content. The hash function is the parameter \<open>hashOf\<close>,
  the size of the content is its number of bytes.
\<close>

record HashOrContent =
  hoc_hash :: "string option"
  hoc_size :: "int option"
  hoc_content :: "string option"


text \<open>Modelled from the spec: \<^verbatim>\<open>hasContent\<close> tells whether raw content was supplied.\<close>

definition hasContent :: "HashOrContent \<Rightarrow> bool" where
  "hasContent h = (hoc_content h \<noteq> None)"

text \<open>
  Modelled from the spec: \<^verbatim>\<open>HashOrContent.finalize\<close> computes hash and size from the
  content on first use and leaves an object alone that has no content or whose pair was
  computed; a supplied hash that is not the hash of the content is an error.
\<close>

definition HashOrContent_finalize ::
  "(string \<Rightarrow> string) \<Rightarrow> HashOrContent \<Rightarrow> HashOrContent \<times> (js_error + unit)" where
  "HashOrContent_finalize hashOf h =
     (case hoc_content h of
        None \<Rightarrow> (h, Inr ())
      | Some c \<Rightarrow>
          (case hoc_size h of
             Some n \<Rightarrow> (h, Inr ())
           | None \<Rightarrow>
               (case hoc_hash h of
                  None \<Rightarrow> (h\<lparr> hoc_hash := Some (hashOf c), hoc_size := Some (int (length c)) \<rparr>, Inr ())
                | Some g \<Rightarrow>
                    if g = hashOf c then (h\<lparr> hoc_size := Some (int (length c)) \<rparr>, Inr ())
                    else (h, Inl (Error ''Given hash does not match content'')))))"

text \<open>
  Modelled from the spec: the getter \<^verbatim>\<open>size\<close> of \<^verbatim>\<open>HashOrContent\<close> gives the size
  that \<^verbatim>\<open>finalize\<close> computed; reading it before is an error.
\<close>

definition HashOrContent_size :: "HashOrContent \<Rightarrow> js_error + int" where
  "HashOrContent_size h =
     (case hoc_size h of None \<Rightarrow> Inl (Error ''Call finalize() first'') | Some n \<Rightarrow> Inr n)"

text \<open>
  Modelled from the spec: the getter \<^verbatim>\<open>contentHash\<close> of \<^verbatim>\<open>HashOrContent\<close> gives the
  hash that was supplied or that \<^verbatim>\<open>finalize\<close> computed; reading it before is an error.
\<close>

definition contentHash :: "HashOrContent \<Rightarrow> js_error + string" where
  "contentHash h =
     (case hoc_hash h of None \<Rightarrow> Inl (Error ''Call finalize() first'') | Some g \<Rightarrow> Inr g)"

text \<open>
  The class \<^verbatim>\<open>ItemFileWithContent\<close> of the client. \<^verbatim>\<open>!this._size\<close> holds for an
  undefined size and for \<^verbatim>\<open>0n\<close>.
\<close>

record ItemFileWithContent =
  ifc_name :: string
  ifc_contentType :: string
  ifc_size :: "int option"
  ifc_hashOrContent :: HashOrContent

definition noSize :: "int option \<Rightarrow> bool" where
  "noSize s = (case s of None \<Rightarrow> True | Some n \<Rightarrow> n = 0)"

definition newItemFileWithContent ::
  "string \<Rightarrow> string \<Rightarrow> int option \<Rightarrow> HashOrContent \<Rightarrow> js_error + ItemFileWithContent" where
  "newItemFileWithContent name contentType sz hashOrContent =
     (if noSize sz \<and> \<not> hasContent hashOrContent
      then Inl (Error ''File size must be provided if no content is'')
      else Inr \<lparr> ifc_name = name, ifc_contentType = contentType, ifc_size = sz,
                 ifc_hashOrContent = hashOrContent \<rparr>)"

definition sizeMismatch :: "int \<Rightarrow> int \<Rightarrow> js_error" where
  "sizeMismatch given contentSize =
     Error (''Given size does not match content: got '' @ showInt given
            @ '', should be '' @ showInt contentSize)"

text \<open>
  \<^verbatim>\<open>ItemFileWithContent.finalize\<close>: the object after the call and whether the call threw.
\<close>

definition ItemFileWithContent_finalize ::
  "(string \<Rightarrow> string) \<Rightarrow> ItemFileWithContent \<Rightarrow> ItemFileWithContent \<times> (js_error + unit)" where
  "ItemFileWithContent_finalize hashOf f =
     (case HashOrContent_finalize hashOf (ifc_hashOrContent f) of
        (h, Inl e) \<Rightarrow> (f\<lparr> ifc_hashOrContent := h \<rparr>, Inl e)
      | (h, Inr u) \<Rightarrow>
          if hasContent h then
            (case HashOrContent_size h of
               Inl e \<Rightarrow> (f\<lparr> ifc_hashOrContent := h \<rparr>, Inl e)
             | Inr contentSize \<Rightarrow>
                 (case ifc_size f of
                    None \<Rightarrow> (f\<lparr> ifc_hashOrContent := h, ifc_size := Some contentSize \<rparr>, Inr ())
                  | Some given \<Rightarrow>
                      if given = 0
                      then (f\<lparr> ifc_hashOrContent := h, ifc_size := Some contentSize \<rparr>, Inr ())
                      else if given \<noteq> contentSize
                      then (f\<lparr> ifc_hashOrContent := h \<rparr>, Inl (sizeMismatch given contentSize))
                      else (f\<lparr> ifc_hashOrContent := h \<rparr>, Inr ())))
          else (f\<lparr> ifc_hashOrContent := h \<rparr>, Inr ()))"

text \<open>The getter \<^verbatim>\<open>size\<close> of \<^verbatim>\<open>ItemFileWithContent\<close>.\<close>

definition ItemFileWithContent_size :: "ItemFileWithContent \<Rightarrow> js_error + int" where
  "ItemFileWithContent_size f =
     (case ifc_size f of
        None \<Rightarrow> Inl (Error ''Call finalize() first'')
      | Some n \<Rightarrow> if n = 0 then Inl (Error ''Call finalize() first'') else Inr n)"

section \<open>Reconciling chain and backend (LocClient.ts)\<close>

text \<open>
  A \<^verbatim>\<open>Hash\<close> is kept as its hexadecimal text, so \<^verbatim>\<open>toHex\<close> is the identity;
  \<^verbatim>\<open>Hash.fromHex\<close> of the node API, which rejects a text that is no hash, is the
  parameter \<open>fromHex\<close> where it is called. A \<^verbatim>\<open>HashString\<close> pairs a hash known to the
  chain with the clear text the backend may know.
\<close>

type_synonym Hash = string

record HashString =
  hs_hash :: Hash
  hs_value :: "string option"

text \<open>The chain's view of a collection item (types of the node API).\<close>

record ItemFile =
  if_name :: Hash
  if_contentType :: Hash
  if_hash :: Hash
  if_size :: int

record ItemToken =
  it_type :: Hash
  it_id :: Hash
  it_issuance :: int

record ChainTermsAndConditionsElement =
  tcType :: Hash
  tcLocId :: string
  tcDetails :: Hash

record CollectionItem =
  ci_id :: Hash
  ci_description :: Hash
  ci_files :: "ItemFile list"
  ci_token :: "ItemToken option"
  ci_restrictedDelivery :: bool
  ci_termsAndConditions :: "ChainTermsAndConditionsElement list"

text \<open>The backend's view.\<close>

record OffchainCollectionItemFile =
  ocf_hash :: string
  ocf_name :: "string option"
  ocf_contentType :: "string option"
  ocf_uploaded :: "bool option"

record OffchainCollectionItemToken =
  oct_type :: "string option"
  oct_id :: "string option"

record OffchainTermsAndConditionsElement =
  otc_type :: string
  otc_details :: string

record OffchainCollectionItem =
  oci_collectionLocId :: string
  oci_itemId :: string
  oci_addedOn :: string
  oci_description :: "string option"
  oci_files :: "OffchainCollectionItemFile list"
  oci_termsAndConditions :: "OffchainTermsAndConditionsElement list"
  oci_token :: "OffchainCollectionItemToken option"

text \<open>The merged view returned to the caller.\<close>

record ClientToken =
  ct_type :: HashString
  ct_id :: HashString
  ct_issuance :: int

record UploadableItemFile =
  uf_name :: HashString
  uf_contentType :: HashString
  uf_size :: int
  uf_hash :: Hash
  uf_uploaded :: bool

record 'tc UploadableCollectionItem =
  uci_id :: Hash
  uci_description :: HashString
  uci_addedOn :: string
  uci_files :: "UploadableItemFile list"
  uci_token :: "ClientToken option"
  uci_restrictedDelivery :: bool
  uci_termsAndConditions :: "'tc list"

text \<open>
  \<^verbatim>\<open>offchainItem.files.find(offchainFile => offchainFile.hash === file.hash.toHex())\<close>
\<close>

definition findOffchainFile ::
  "OffchainCollectionItemFile list \<Rightarrow> Hash \<Rightarrow> OffchainCollectionItemFile option" where
  "findOffchainFile files h = List.find (\<lambda>offchainFile. ocf_hash offchainFile = h) files"

definition mergeFile :: "OffchainCollectionItemFile list \<Rightarrow> ItemFile \<Rightarrow> UploadableItemFile" where
  "mergeFile offchainFiles file =
     \<lparr> uf_name = \<lparr> hs_hash = if_name file,
                    hs_value = Option.bind (findOffchainFile offchainFiles (if_hash file)) ocf_name \<rparr>,
       uf_contentType = \<lparr> hs_hash = if_contentType file,
                    hs_value = Option.bind (findOffchainFile offchainFiles (if_hash file)) ocf_contentType \<rparr>,
       uf_size = if_size file,
       uf_hash = if_hash file,
       uf_uploaded =
         (case Option.bind (findOffchainFile offchainFiles (if_hash file)) ocf_uploaded of
            None \<Rightarrow> False | Some b \<Rightarrow> b) \<rparr>"

text \<open>
  \<^verbatim>\<open>newTermsAndConditions\<close> is defined in license/index.ts, outside the sources; it is the
  parameter \<open>newTC\<close>.
\<close>

definition mergeItems ::
  "(ChainTermsAndConditionsElement list \<Rightarrow> OffchainTermsAndConditionsElement list \<Rightarrow> 'tc list)
     \<Rightarrow> CollectionItem \<Rightarrow> OffchainCollectionItem \<Rightarrow> 'tc UploadableCollectionItem" where
  "mergeItems newTC onchainItem offchainItem =
     \<lparr> uci_id = ci_id onchainItem,
       uci_description = \<lparr> hs_hash = ci_description onchainItem,
                           hs_value = oci_description offchainItem \<rparr>,
       uci_addedOn = oci_addedOn offchainItem,
       uci_files = map (mergeFile (oci_files offchainItem)) (ci_files onchainItem),
       uci_token =
         (case ci_token onchainItem of
            None \<Rightarrow> None
          | Some t \<Rightarrow>
              Some \<lparr> ct_type = \<lparr> hs_hash = it_type t,
                                 hs_value = Option.bind (oci_token offchainItem) oct_type \<rparr>,
                     ct_id = \<lparr> hs_hash = it_id t,
                               hs_value = Option.bind (oci_token offchainItem) oct_id \<rparr>,
                     ct_issuance = it_issuance t \<rparr>),
       uci_restrictedDelivery = ci_restrictedDelivery onchainItem,
       uci_termsAndConditions =
         newTC (ci_termsAndConditions onchainItem) (oci_termsAndConditions offchainItem) \<rparr>"

text \<open>
  The two sources of a query. The node answers from chain storage; the backend answers
  a GET with the body of the response, or the request fails (a non-2xx status makes the
  HTTP client throw).
\<close>

record TypesTokensRecordFile =
  trf_name :: Hash
  trf_contentType :: Hash
  trf_size :: int
  trf_hash :: Hash

record TypesTokensRecord =
  tr_description :: Hash
  tr_files :: "TypesTokensRecordFile list"
  tr_submitter :: string

record OffchainTokensRecord =
  otr_collectionLocId :: string
  otr_recordId :: string
  otr_description :: string
  otr_addedOn :: string
  otr_files :: "OffchainCollectionItemFile list"

record ClientTokensRecord =
  ctr_id :: Hash
  ctr_description :: HashString
  ctr_addedOn :: string
  ctr_files :: "UploadableItemFile list"
  ctr_issuer :: string

record Node =
  queryCollectionItem :: "string \<Rightarrow> Hash \<Rightarrow> CollectionItem option"
  queryCollectionItems :: "string \<Rightarrow> CollectionItem list"
  queryTokensRecord :: "string \<Rightarrow> Hash \<Rightarrow> TypesTokensRecord option"

record Backend =
  getItem :: "string \<Rightarrow> Hash \<Rightarrow> js_error + OffchainCollectionItem"
  getItems :: "string \<Rightarrow> js_error + OffchainCollectionItem list"
  getRecord :: "string \<Rightarrow> Hash \<Rightarrow> js_error + OffchainTokensRecord"

definition getCollectionItem ::
  "(ChainTermsAndConditionsElement list \<Rightarrow> OffchainTermsAndConditionsElement list \<Rightarrow> 'tc list)
     \<Rightarrow> Node \<Rightarrow> Backend \<Rightarrow> string \<Rightarrow> Hash \<Rightarrow> js_error + 'tc UploadableCollectionItem option" where
  "getCollectionItem newTC node backend locId itemId =
     (case queryCollectionItem node locId itemId of
        None \<Rightarrow> Inr None
      | Some onchainItem \<Rightarrow>
          (case getItem backend locId itemId of
             Inl e \<Rightarrow> Inl (BackendError e)
           | Inr offchainItem \<Rightarrow> Inr (Some (mergeItems newTC onchainItem offchainItem))))"

text \<open>
  \<^verbatim>\<open>Array.prototype.map\<close> with a callback that may throw: the first exception ends
  the whole call.
\<close>

fun mapOrThrow :: "('a \<Rightarrow> js_error + 'b) \<Rightarrow> 'a list \<Rightarrow> js_error + 'b list" where
  "mapOrThrow f [] = Inr []"
| "mapOrThrow f (x # xs) =
     (case f x of
        Inl e \<Rightarrow> Inl e
      | Inr y \<Rightarrow> (case mapOrThrow f xs of Inl e \<Rightarrow> Inl e | Inr ys \<Rightarrow> Inr (y # ys)))"

text \<open>
  \<^verbatim>\<open>getCollectionItems\<close> fills two dictionaries and then walks the backend's list.
  \<^verbatim>\<open>mergeItems\<close> reads \<^verbatim>\<open>onchainItem.id\<close> first, so an id missing from the chain's
  dictionary raises a TypeError inside the \<^verbatim>\<open>try\<close> block, which wraps it.
\<close>

definition getCollectionItems ::
  "(ChainTermsAndConditionsElement list \<Rightarrow> OffchainTermsAndConditionsElement list \<Rightarrow> 'tc list)
     \<Rightarrow> Node \<Rightarrow> Backend \<Rightarrow> string \<Rightarrow> js_error + 'tc UploadableCollectionItem list" where
  "getCollectionItems newTC node backend locId =
     (let onchainItems = queryCollectionItems node locId;
          onchainItemsMap = foldl (\<lambda>m item. m(ci_id item \<mapsto> item)) Map.empty onchainItems
      in case getItems backend locId of
           Inl e \<Rightarrow> Inl (BackendError e)
         | Inr offchainItems \<Rightarrow>
             (let offchainItemsMap =
                    foldl (\<lambda>m item. m(oci_itemId item \<mapsto> item)) Map.empty offchainItems
              in case mapOrThrow
                        (\<lambda>item.
                           case onchainItemsMap (oci_itemId item) of
                             None \<Rightarrow> Inl TypeError
                           | Some onchainItem \<Rightarrow>
                               (case offchainItemsMap (oci_itemId item) of
                                  None \<Rightarrow> Inl TypeError
                                | Some offchainItem \<Rightarrow>
                                    Inr (mergeItems newTC onchainItem offchainItem)))
                        offchainItems of
                   Inl e \<Rightarrow> Inl (BackendError e)
                 | Inr items \<Rightarrow> Inr items))"

definition mergeRecordFile ::
  "OffchainCollectionItemFile list \<Rightarrow> TypesTokensRecordFile \<Rightarrow> UploadableItemFile" where
  "mergeRecordFile offchainFiles file =
     \<lparr> uf_name = \<lparr> hs_hash = trf_name file,
                    hs_value = Option.bind (findOffchainFile offchainFiles (trf_hash file)) ocf_name \<rparr>,
       uf_contentType = \<lparr> hs_hash = trf_contentType file,
                    hs_value = Option.bind (findOffchainFile offchainFiles (trf_hash file)) ocf_contentType \<rparr>,
       uf_size = trf_size file,
       uf_hash = trf_hash file,
       uf_uploaded =
         (case Option.bind (findOffchainFile offchainFiles (trf_hash file)) ocf_uploaded of
            None \<Rightarrow> False | Some b \<Rightarrow> b) \<rparr>"

text \<open>
  \<^verbatim>\<open>mergeRecords\<close> takes the id from the backend's record through \<^verbatim>\<open>Hash.fromHex\<close>,
  the first field of the result to be computed; when that throws, no record is built.
\<close>

definition mergeRecords ::
  "(string \<Rightarrow> js_error + Hash) \<Rightarrow> TypesTokensRecord \<Rightarrow> OffchainTokensRecord
     \<Rightarrow> js_error + ClientTokensRecord" where
  "mergeRecords fromHex onchainItem offchainItem =
     (case fromHex (otr_recordId offchainItem) of
        Inl e \<Rightarrow> Inl e
      | Inr recordId \<Rightarrow>
          Inr \<lparr> ctr_id = recordId,
                ctr_description = \<lparr> hs_hash = tr_description onchainItem,
                                    hs_value = Some (otr_description offchainItem) \<rparr>,
                ctr_addedOn = otr_addedOn offchainItem,
                ctr_files = map (mergeRecordFile (otr_files offchainItem)) (tr_files onchainItem),
                ctr_issuer = tr_submitter onchainItem \<rparr>)"

text \<open>
  \<^verbatim>\<open>getTokensRecord\<close>: the backend lookup and the merge are both inside the \<^verbatim>\<open>try\<close>
  block, so a failure of either is rethrown as a backend error.
\<close>

definition getTokensRecord ::
  "(string \<Rightarrow> js_error + Hash) \<Rightarrow> Node \<Rightarrow> Backend \<Rightarrow> string \<Rightarrow> Hash
     \<Rightarrow> js_error + ClientTokensRecord option" where
  "getTokensRecord fromHex node backend locId recordId =
     (case queryTokensRecord node locId recordId of
        None \<Rightarrow> Inr None
      | Some onchainRecord \<Rightarrow>
          (case getRecord backend locId recordId of
             Inl e \<Rightarrow> Inl (BackendError e)
           | Inr offchainRecord \<Rightarrow>
               (case mergeRecords fromHex onchainRecord offchainRecord of
                  Inl e \<Rightarrow> Inl (BackendError e)
                | Inr merged \<Rightarrow> Inr (Some merged))))"

subsection \<open>Issuers of a LOC\<close>

datatype LocType = Transaction | Collection | Identity

datatype LocRequestStatus =
    DRAFT | REVIEW_PENDING | REVIEW_REJECTED | REVIEW_ACCEPTED | OPEN | CLOSED

record AccountId =
  acc_type :: string
  acc_address :: string

record UserIdentity =
  firstName :: string
  lastName :: string

record VerifiedIssuerIdentity =
  vii_address :: string
  vii_identity :: UserIdentity
  vii_identityLocId :: string
  vii_selected :: "bool option"

record VerifiedIssuer =
  vi_firstName :: string
  vi_lastName :: string
  vi_identityLocId :: string
  vi_address :: string
  vi_selected :: "bool option"

record LocVerifiedIssuers =
  verifiedIssuer :: bool
  issuers :: "VerifiedIssuer list"

text \<open>The fields of a \<^verbatim>\<open>LocRequest\<close> that \<^verbatim>\<open>getLocIssuers\<close> reads.\<close>

record LocRequest =
  ownerAddress :: string
  requesterAddress :: "AccountId option"
  locType :: LocType
  status :: LocRequestStatus
  req_id :: string
  selectedIssuers :: "VerifiedIssuerIdentity list"

text \<open>
  An issuer as the chain knows it, and the two dictionaries a \<^verbatim>\<open>LocBatch\<close> of the node
  API resolves to: the issuers available to each legal officer, and the issuers selected
  for each LOC (keyed by the decimal text of the LOC id).
\<close>

record VerifiedIssuerType =
  vit_address :: string
  vit_identityLocId :: string

record LocBatch =
  getAvailableVerifiedIssuers :: "string \<rightharpoonup> VerifiedIssuerType list"
  getLocsVerifiedIssuers :: "string \<rightharpoonup> VerifiedIssuerType list"

definition EMPTY_LOC_ISSUERS :: LocVerifiedIssuers where
  "EMPTY_LOC_ISSUERS = \<lparr> verifiedIssuer = False, issuers = [] \<rparr>"

text \<open>
  The test that opens the identity fields to the caller: the caller is the requester (same
  address and account type), or the owner (a Polkadot account), or one of the issuers the
  chain lists as selected for the LOC.
\<close>

definition isRequester :: "AccountId \<Rightarrow> LocRequest \<Rightarrow> bool" where
  "isRequester currentAddress request =
     (case requesterAddress request of
        None \<Rightarrow> False
      | Some r \<Rightarrow> acc_address currentAddress = acc_address r \<and> acc_type currentAddress = acc_type r)"

definition isOwner :: "AccountId \<Rightarrow> LocRequest \<Rightarrow> bool" where
  "isOwner currentAddress request =
     (acc_address currentAddress = ownerAddress request \<and> acc_type currentAddress = ''Polkadot'')"

definition isChainSelectedIssuer :: "AccountId \<Rightarrow> VerifiedIssuerType list \<Rightarrow> bool" where
  "isChainSelectedIssuer currentAddress nodeIssuers =
     (acc_address currentAddress \<in> set (map vit_address nodeIssuers))"

definition mayReadIdentities ::
  "AccountId \<Rightarrow> LocRequest \<Rightarrow> VerifiedIssuerType list \<Rightarrow> bool" where
  "mayReadIdentities currentAddress request nodeIssuers =
     (isRequester currentAddress request
      \<or> isOwner currentAddress request
      \<or> isChainSelectedIssuer currentAddress nodeIssuers)"

definition fromBackend :: "VerifiedIssuerType list \<Rightarrow> VerifiedIssuerIdentity \<Rightarrow> VerifiedIssuer" where
  "fromBackend nodeIssuers maybeSelectedIssuer =
     \<lparr> vi_firstName = firstName (vii_identity maybeSelectedIssuer),
       vi_lastName = lastName (vii_identity maybeSelectedIssuer),
       vi_identityLocId = vii_identityLocId maybeSelectedIssuer,
       vi_address = vii_address maybeSelectedIssuer,
       vi_selected = Some (vii_address maybeSelectedIssuer \<in> set (map vit_address nodeIssuers)) \<rparr>"

definition fromNode :: "bool option \<Rightarrow> VerifiedIssuerType \<Rightarrow> VerifiedIssuer" where
  "fromNode sel nodeIssuer =
     \<lparr> vi_firstName = [], vi_lastName = [],
       vi_identityLocId = vit_identityLocId nodeIssuer,
       vi_address = vit_address nodeIssuer,
       vi_selected = sel \<rparr>"

text \<open>
  \<^verbatim>\<open>getLocIssuers\<close>. \<open>toDecimalString\<close> stands for \<^verbatim>\<open>new UUID(id).toDecimalString()\<close> of
  the node API. A dictionary without the key gives \<^verbatim>\<open>undefined\<close>, and the method
  called on it next raises a TypeError.
\<close>

definition getLocIssuers ::
  "(string \<Rightarrow> string) \<Rightarrow> AccountId option \<Rightarrow> LocRequest \<Rightarrow> LocBatch
     \<Rightarrow> js_error + LocVerifiedIssuers" where
  "getLocIssuers toDecimalString currentAddress request locBatch =
     (case currentAddress of
        None \<Rightarrow> Inr EMPTY_LOC_ISSUERS
      | Some cur \<Rightarrow>
          if status request \<noteq> OPEN \<and> status request \<noteq> CLOSED then Inr EMPTY_LOC_ISSUERS
          else
            (case (if locType request = Identity \<and> status request = CLOSED
                   then (case getAvailableVerifiedIssuers locBatch (ownerAddress request) of
                           None \<Rightarrow> Inl TypeError
                         | Some available \<Rightarrow>
                             Inr (List.find
                                    (\<lambda>issuer.
                                       case requesterAddress request of
                                         None \<Rightarrow> False
                                       | Some r \<Rightarrow> vit_address issuer = acc_address r
                                                    \<and> acc_type r = ''Polkadot'')
                                    available \<noteq> None))
                   else Inr False) of
               Inl e \<Rightarrow> Inl e
             | Inr isVerifiedIssuer \<Rightarrow>
                 (case getLocsVerifiedIssuers locBatch (toDecimalString (req_id request)) of
                    None \<Rightarrow> Inl TypeError
                  | Some nodeIssuers \<Rightarrow>
                      if mayReadIdentities cur request nodeIssuers then
                        Inr \<lparr> verifiedIssuer = isVerifiedIssuer,
                              issuers =
                                map (fromBackend nodeIssuers) (selectedIssuers request)
                                @ map (fromNode (Some True))
                                    (filter (\<lambda>nodeIssuer.
                                               vit_address nodeIssuer
                                                 \<notin> set (map vii_address (selectedIssuers request)))
                                       nodeIssuers) \<rparr>
                      else
                        Inr \<lparr> verifiedIssuer = isVerifiedIssuer,
                              issuers = map (fromNode None) nodeIssuers \<rparr>)))"

section \<open>Adding collection items and tokens records (AuthenticatedLocClient)\<close>

text \<open>
  A terms-and-conditions element as \<^verbatim>\<open>addCollectionItem\<close> reads it: its type tag, the
  LOC it refers to and its details. The logion classification, the creative commons
  element and the specific licences of the parameters are all read through these three
  fields.
\<close>

record TermsAndConditionsElement =
  tce_type :: string
  tce_tcLocId :: string
  tce_details :: string

record AddCollectionItemParams =
  p_itemId :: Hash
  p_itemDescription :: string
  p_locId :: string
  p_itemFiles :: "ItemFileWithContent list option"
  p_itemToken :: "ItemTokenWithRestrictedType option"
  p_restrictedDelivery :: "bool option"
  p_logionClassification :: "TermsAndConditionsElement option"
  p_specificLicenses :: "TermsAndConditionsElement list option"
  p_creativeCommons :: "TermsAndConditionsElement option"

record AddTokensRecordParams =
  r_recordId :: Hash
  r_description :: string
  r_locId :: string
  r_files :: "ItemFileWithContent list"

text \<open>The bodies sent to the backend and the arguments of the two extrinsics.\<close>

record CreateOffchainCollectionItem =
  coi_itemId :: string
  coi_description :: string
  coi_files :: "OffchainCollectionItemFile list"
  coi_termsAndConditions :: "OffchainTermsAndConditionsElement list"
  coi_token :: "OffchainCollectionItemToken option"

record CreateOffchainTokensRecord =
  cor_recordId :: string
  cor_description :: string
  cor_files :: "OffchainCollectionItemFile list"

record AddCollectionItemExtrinsic =
  x_locId :: string
  x_itemId :: Hash
  x_description :: Hash
  x_files :: "ItemFile list"
  x_token :: "ItemToken option"
  x_restrictedDelivery :: bool
  x_termsAndConditions :: "ChainTermsAndConditionsElement list"

record AddTokensRecordExtrinsic =
  y_locId :: string
  y_recordId :: Hash
  y_description :: Hash
  y_files :: "TypesTokensRecordFile list"

text \<open>
  Every request the client issues to a collaborator: the POST that announces the public
  data of an item or record to the backend, the signed submission to the ledger, the
  DELETE that cancels the announcement, and the upload of a file. The log of the calls
  issued so far is the state the operations thread; a collaborator changes only through a
  call. \<open>respond\<close> gives the outcome of a call: \<open>None\<close> when it succeeds, the error it
  throws otherwise.
\<close>

datatype call =
    PostItem string CreateOffchainCollectionItem
  | SignAddCollectionItem AddCollectionItemExtrinsic
  | DeleteItem string Hash
  | PostItemFile string Hash Hash
  | PostRecord string CreateOffchainTokensRecord
  | SignAddTokensRecord AddTokensRecordExtrinsic
  | DeleteRecord string Hash
  | PostRecordFile string Hash Hash

text \<open>The first loop: \<^verbatim>\<open>await itemFile.finalize()\<close> on each file in turn.\<close>

fun finalizeAll ::
  "(string \<Rightarrow> string) \<Rightarrow> ItemFileWithContent list \<Rightarrow> js_error + ItemFileWithContent list" where
  "finalizeAll hashOf [] = Inr []"
| "finalizeAll hashOf (f # fs) =
     (case ItemFileWithContent_finalize hashOf f of
        (f', Inl e) \<Rightarrow> Inl e
      | (f', Inr u) \<Rightarrow>
          (case finalizeAll hashOf fs of Inl e \<Rightarrow> Inl e | Inr fs' \<Rightarrow> Inr (f' # fs')))"

text \<open>
  The second loop reads, for each finalized file, its content hash and its size; both
  getters may throw. The file is kept with what was read.
\<close>

definition describeFile :: "ItemFileWithContent \<Rightarrow> js_error + (ItemFileWithContent \<times> Hash \<times> int)" where
  "describeFile itemFile =
     (case contentHash (ifc_hashOrContent itemFile) of
        Inl e \<Rightarrow> Inl e
      | Inr h \<Rightarrow>
          (case ItemFileWithContent_size itemFile of
             Inl e \<Rightarrow> Inl e
           | Inr n \<Rightarrow> Inr (itemFile, h, n)))"

definition finalizedFiles ::
  "(string \<Rightarrow> string) \<Rightarrow> ItemFileWithContent list
     \<Rightarrow> js_error + (ItemFileWithContent \<times> Hash \<times> int) list" where
  "finalizedFiles hashOf itemFiles =
     (case finalizeAll hashOf itemFiles of
        Inl e \<Rightarrow> Inl e
      | Inr fs \<Rightarrow> mapOrThrow describeFile fs)"

definition chainItemFile :: "(string \<Rightarrow> string) \<Rightarrow> ItemFileWithContent \<times> Hash \<times> int \<Rightarrow> ItemFile" where
  "chainItemFile hashOf d =
     (case d of (itemFile, h, n) \<Rightarrow>
        \<lparr> if_name = hashOf (ifc_name itemFile),
          if_contentType = hashOf (ifc_contentType itemFile),
          if_hash = h, if_size = n \<rparr>)"

definition offchainFile :: "ItemFileWithContent \<times> Hash \<times> int \<Rightarrow> OffchainCollectionItemFile" where
  "offchainFile d =
     (case d of (itemFile, h, n) \<Rightarrow>
        \<lparr> ocf_hash = h, ocf_name = Some (ifc_name itemFile),
          ocf_contentType = Some (ifc_contentType itemFile), ocf_uploaded = None \<rparr>)"

text \<open>
  Everything \<^verbatim>\<open>addCollectionItem\<close> does before it looks at the terms and conditions:
  the files are finalized and described, restricted delivery needs a token and a file, and
  a given token is validated.
\<close>

definition prepareItem ::
  "TokenApi \<Rightarrow> (string \<Rightarrow> string) \<Rightarrow> AddCollectionItemParams
     \<Rightarrow> js_error + ((ItemFileWithContent \<times> Hash \<times> int) list \<times> bool)" where
  "prepareItem api hashOf params =
     (let booleanRestrictedDelivery =
            (case p_restrictedDelivery params of None \<Rightarrow> False | Some b \<Rightarrow> b)
      in case (case p_itemFiles params of
                 None \<Rightarrow> Inr []
               | Some itemFiles \<Rightarrow> finalizedFiles hashOf itemFiles) of
           Inl e \<Rightarrow> Inl e
         | Inr files \<Rightarrow>
             if booleanRestrictedDelivery \<and> (length files = 0 \<or> p_itemToken params = None)
             then Inl (Error (''Restricted delivery requires a defined underlying token ''
                              @ ''as well as at least one file''))
             else
               (case (case p_itemToken params of
                        None \<Rightarrow> Inr ()
                      | Some itemToken \<Rightarrow> validTokenOrThrow api itemToken) of
                  Inl e \<Rightarrow> Inl e
                | Inr u \<Rightarrow> Inr (files, booleanRestrictedDelivery)))"

definition mutuallyExclusiveError :: js_error where
  "mutuallyExclusiveError =
     Error ''Logion Classification and Creative Commons are mutually exclusive.''"

definition termsAndConditionsOf ::
  "AddCollectionItemParams \<Rightarrow> js_error + TermsAndConditionsElement list" where
  "termsAndConditionsOf params =
     (if p_logionClassification params \<noteq> None \<and> p_creativeCommons params \<noteq> None
      then Inl mutuallyExclusiveError
      else
        Inr ((case p_logionClassification params of
                Some lc \<Rightarrow> [lc]
              | None \<Rightarrow> (case p_creativeCommons params of Some cc \<Rightarrow> [cc] | None \<Rightarrow> []))
             @ (case p_specificLicenses params of None \<Rightarrow> [] | Some ls \<Rightarrow> ls)))"

definition announceItem ::
  "AddCollectionItemParams \<Rightarrow> (ItemFileWithContent \<times> Hash \<times> int) list
     \<Rightarrow> TermsAndConditionsElement list \<Rightarrow> call" where
  "announceItem params files termsAndConditions =
     PostItem (p_locId params)
       \<lparr> coi_itemId = p_itemId params,
         coi_description = p_itemDescription params,
         coi_files = map offchainFile files,
         coi_termsAndConditions =
           map (\<lambda>element. \<lparr> otc_type = tce_type element, otc_details = tce_details element \<rparr>)
             termsAndConditions,
         coi_token =
           (case p_itemToken params of
              None \<Rightarrow> None
            | Some itemToken \<Rightarrow>
                Some \<lparr> oct_type = Some (token_type itemToken),
                       oct_id = Some (token_id itemToken) \<rparr>) \<rparr>"

definition submitItem ::
  "(string \<Rightarrow> string) \<Rightarrow> AddCollectionItemParams \<Rightarrow> (ItemFileWithContent \<times> Hash \<times> int) list
     \<Rightarrow> bool \<Rightarrow> TermsAndConditionsElement list \<Rightarrow> call" where
  "submitItem hashOf params files booleanRestrictedDelivery termsAndConditions =
     SignAddCollectionItem
       \<lparr> x_locId = p_locId params,
         x_itemId = p_itemId params,
         x_description = hashOf (p_itemDescription params),
         x_files = map (chainItemFile hashOf) files,
         x_token =
           (case p_itemToken params of
              None \<Rightarrow> None
            | Some itemToken \<Rightarrow>
                Some \<lparr> it_type = hashOf (token_type itemToken),
                       it_id = hashOf (token_id itemToken),
                       it_issuance = issuance itemToken \<rparr>),
         x_restrictedDelivery = booleanRestrictedDelivery,
         x_termsAndConditions =
           map (\<lambda>element. \<lparr> tcType = hashOf (tce_type element),
                             tcLocId = tce_tcLocId element,
                             tcDetails = hashOf (tce_details element) \<rparr>)
             termsAndConditions \<rparr>"

text \<open>
  The last loop uploads, one after the other, the files that came with content; a failed
  upload is rethrown as a backend error and ends the loop.
\<close>

fun uploadFiles ::
  "(call \<Rightarrow> js_error option) \<Rightarrow> (Hash \<Rightarrow> call) \<Rightarrow> (ItemFileWithContent \<times> Hash \<times> int) list
     \<Rightarrow> call list \<Rightarrow> call list \<times> (js_error + unit)" where
  "uploadFiles respond upload [] log = (log, Inr ())"
| "uploadFiles respond upload ((itemFile, h, n) # rest) log =
     (if hasContent (ifc_hashOrContent itemFile) then
        (case respond (upload h) of
           Some e \<Rightarrow> (log @ [upload h], Inl (BackendError e))
         | None \<Rightarrow> uploadFiles respond upload rest (log @ [upload h]))
      else uploadFiles respond upload rest log)"

text \<open>
  \<^verbatim>\<open>cancelItemPublicDataSubmission\<close> and \<^verbatim>\<open>cancelRecordPublicDataSubmission\<close>: the
  DELETE is issued once, and its failure is rethrown as a backend error.
\<close>

definition cancelPublicDataSubmission ::
  "(call \<Rightarrow> js_error option) \<Rightarrow> call \<Rightarrow> call list \<Rightarrow> call list \<times> (js_error + unit)" where
  "cancelPublicDataSubmission respond cancellation log =
     (case respond cancellation of
        None \<Rightarrow> (log @ [cancellation], Inr ())
      | Some e \<Rightarrow> (log @ [cancellation], Inl (BackendError e)))"

text \<open>
  The signed submission with its \<^verbatim>\<open>catch\<close> block: when \<^verbatim>\<open>signAndSend\<close> throws \<open>e\<close>,
  the cancellation is awaited and then \<open>e\<close> is rethrown; an exception of the cancellation
  leaves the \<^verbatim>\<open>catch\<close> block before \<^verbatim>\<open>throw e\<close> is reached.
\<close>

definition signAndSendOrCancel ::
  "(call \<Rightarrow> js_error option) \<Rightarrow> call \<Rightarrow> call \<Rightarrow> call list \<Rightarrow> call list \<times> (js_error + unit)" where
  "signAndSendOrCancel respond submission cancellation log =
     (case respond submission of
        None \<Rightarrow> (log @ [submission], Inr ())
      | Some e \<Rightarrow>
          (case cancelPublicDataSubmission respond cancellation (log @ [submission]) of
             (log', Inl e2) \<Rightarrow> (log', Inl e2)
           | (log', Inr u) \<Rightarrow> (log', Inl e)))"

definition addCollectionItem ::
  "TokenApi \<Rightarrow> (string \<Rightarrow> string) \<Rightarrow> (call \<Rightarrow> js_error option) \<Rightarrow> AddCollectionItemParams
     \<Rightarrow> call list \<Rightarrow> call list \<times> (js_error + unit)" where
  "addCollectionItem api hashOf respond params log =
     (case prepareItem api hashOf params of
        Inl e \<Rightarrow> (log, Inl e)
      | Inr (files, booleanRestrictedDelivery) \<Rightarrow>
          (case termsAndConditionsOf params of
             Inl e \<Rightarrow> (log, Inl e)
           | Inr termsAndConditions \<Rightarrow>
               (case respond (announceItem params files termsAndConditions) of
                  Some e \<Rightarrow> (log @ [announceItem params files termsAndConditions], Inl (BackendError e))
                | None \<Rightarrow>
                    (case signAndSendOrCancel respond
                            (submitItem hashOf params files booleanRestrictedDelivery termsAndConditions)
                            (DeleteItem (p_locId params) (p_itemId params))
                            (log @ [announceItem params files termsAndConditions]) of
                       (log', Inl e) \<Rightarrow> (log', Inl e)
                     | (log', Inr u) \<Rightarrow>
                         uploadFiles respond (PostItemFile (p_locId params) (p_itemId params))
                           files log'))))"

definition recordFile ::
  "(string \<Rightarrow> string) \<Rightarrow> ItemFileWithContent \<times> Hash \<times> int \<Rightarrow> TypesTokensRecordFile" where
  "recordFile hashOf d =
     (case d of (itemFile, h, n) \<Rightarrow>
        \<lparr> trf_name = hashOf (ifc_name itemFile),
          trf_contentType = hashOf (ifc_contentType itemFile),
          trf_size = n, trf_hash = h \<rparr>)"

definition announceRecord ::
  "AddTokensRecordParams \<Rightarrow> (ItemFileWithContent \<times> Hash \<times> int) list \<Rightarrow> call" where
  "announceRecord params files =
     PostRecord (r_locId params)
       \<lparr> cor_recordId = r_recordId params,
         cor_description = r_description params,
         cor_files = map offchainFile files \<rparr>"

definition submitRecord ::
  "(string \<Rightarrow> string) \<Rightarrow> AddTokensRecordParams \<Rightarrow> (ItemFileWithContent \<times> Hash \<times> int) list \<Rightarrow> call" where
  "submitRecord hashOf params files =
     SignAddTokensRecord
       \<lparr> y_locId = r_locId params,
         y_recordId = r_recordId params,
         y_description = hashOf (r_description params),
         y_files = map (recordFile hashOf) files \<rparr>"

definition addTokensRecord ::
  "(string \<Rightarrow> string) \<Rightarrow> (call \<Rightarrow> js_error option) \<Rightarrow> AddTokensRecordParams
     \<Rightarrow> call list \<Rightarrow> call list \<times> (js_error + unit)" where
  "addTokensRecord hashOf respond params log =
     (case finalizedFiles hashOf (r_files params) of
        Inl e \<Rightarrow> (log, Inl e)
      | Inr files \<Rightarrow>
          (case respond (announceRecord params files) of
             Some e \<Rightarrow> (log @ [announceRecord params files], Inl (BackendError e))
           | None \<Rightarrow>
               (case signAndSendOrCancel respond
                       (submitRecord hashOf params files)
                       (DeleteRecord (r_locId params) (r_recordId params))
                       (log @ [announceRecord params files]) of
                  (log', Inl e) \<Rightarrow> (log', Inl e)
                | (log', Inr u) \<Rightarrow>
                    uploadFiles respond (PostRecordFile (r_locId params) (r_recordId params))
                      files log')))"

section \<open>Fetching from every legal officer (LocMultiClient.fetchAll)\<close>

record FetchLocRequestSpecification =
  spec_ownerAddress :: "string option"
  spec_requesterAddress :: "string option"
  spec_statuses :: "LocRequestStatus list"
  spec_locTypes :: "LocType list"
  spec_sponsorshipId :: "string option"

record FetchAllLocsParams =
  fa_legalOfficers :: "string list option"
  fa_spec :: "FetchLocRequestSpecification option"

text \<open>
  Modelled from the spec: \<^verbatim>\<open>MultiSourceHttpClient.fetch\<close> of Http.ts, which is not among
  the sources. Given a set of endpoints and a per-endpoint operation, all operations are
  issued; each endpoint either succeeds and contributes its result, or fails on its own,
  in which case it contributes nothing, its failure is recorded and its siblings are not
  aborted. Only the failure of all endpoints surfaces an error. An endpoint is its URL;
  the outcome of \<open>query\<close> at one endpoint does not depend on any other endpoint.
\<close>

record 'r MultiResponse =
  succeeded :: "(string \<times> 'r) list"
  failed :: "(string \<times> js_error) list"

text \<open>
  Modelled from the spec: the outcome of all the operations, endpoint by endpoint: the
  results of the endpoints that succeeded and the recorded failures of the others.
\<close>

fun settle :: "(string \<Rightarrow> js_error + 'r) \<Rightarrow> string list \<Rightarrow> 'r MultiResponse" where
  "settle query [] = \<lparr> succeeded = [], failed = [] \<rparr>"
| "settle query (endpoint # endpoints) =
     (case query endpoint of
        Inl e \<Rightarrow> (settle query endpoints)
                  \<lparr> failed := (endpoint, e) # failed (settle query endpoints) \<rparr>
      | Inr r \<Rightarrow> (settle query endpoints)
                  \<lparr> succeeded := (endpoint, r) # succeeded (settle query endpoints) \<rparr>)"

text \<open>Modelled from the spec: the error that surfaces when all endpoints failed.\<close>

definition allEndpointsFailed :: js_error where
  "allEndpointsFailed = Error ''All endpoints failed''"

text \<open>
  Modelled from the spec: \<^verbatim>\<open>MultiSourceHttpClient.fetch\<close> settles every endpoint and
  fails only if there are endpoints and none of them succeeded.
\<close>

definition MultiSourceHttpClient_fetch ::
  "string list \<Rightarrow> (string \<Rightarrow> js_error + 'r) \<Rightarrow> js_error + 'r MultiResponse" where
  "MultiSourceHttpClient_fetch endpoints query =
     (let multiResponse = settle query endpoints
      in if endpoints \<noteq> [] \<and> succeeded multiResponse = []
         then Inl allEndpointsFailed
         else Inr multiResponse)"

text \<open>
  Modelled from the spec: \<^verbatim>\<open>aggregateArrays\<close> of Http.ts, which is not among the
  sources. The aggregate result is the flattened concatenation of all successful
  per-endpoint arrays, each endpoint's own array in its order.
\<close>

definition aggregateArrays :: "'a list MultiResponse \<Rightarrow> 'a list" where
  "aggregateArrays multiResponse = concat (map snd (succeeded multiResponse))"

text \<open>
  \<^verbatim>\<open>LocMultiClient.fetchAll\<close>, from the source. \<open>initState\<close> stands for
  \<^verbatim>\<open>initMultiSourceHttpClientState(networkState, legalOfficers)\<close> and gives the endpoints
  to query; \<open>putLocRequest\<close> is the answer of one endpoint to
  \<^verbatim>\<open>PUT /api/loc-request\<close>, the field \<^verbatim>\<open>requests\<close> of the body.
\<close>

definition defaultSpec :: "AccountId \<Rightarrow> FetchLocRequestSpecification" where
  "defaultSpec currentAddress =
     \<lparr> spec_ownerAddress = None,
       spec_requesterAddress = Some (acc_address currentAddress),
       spec_statuses = [OPEN, REVIEW_PENDING, REVIEW_ACCEPTED, REVIEW_REJECTED, CLOSED, DRAFT],
       spec_locTypes = [Transaction, Collection, Identity],
       spec_sponsorshipId = None \<rparr>"

definition fetchAll ::
  "(string list option \<Rightarrow> string list)
     \<Rightarrow> (string \<Rightarrow> FetchLocRequestSpecification \<Rightarrow> js_error + 'r list)
     \<Rightarrow> AccountId \<Rightarrow> FetchAllLocsParams option \<Rightarrow> js_error + 'r list" where
  "fetchAll initState putLocRequest currentAddress params =
     (let endpoints = initState (Option.bind params fa_legalOfficers);
          specs = (case Option.bind params fa_spec of
                     Some sp \<Rightarrow> sp
                   | None \<Rightarrow> defaultSpec currentAddress)
      in case MultiSourceHttpClient_fetch endpoints (\<lambda>endpoint. putLocRequest endpoint specs) of
           Inl e \<Rightarrow> Inl e
         | Inr multiResponse \<Rightarrow> Inr (aggregateArrays multiResponse))"

section \<open>State objects (State.ts)\<close>

text \<open>
  Modelled from the spec: the class \<^verbatim>\<open>State\<close> of State.ts, which is not among the
  sources (its generated documentation is). A state object carries a \<open>discarded\<close> flag.
  \<^verbatim>\<open>ensureCurrent\<close> throws if the state was discarded; \<^verbatim>\<open>discard\<close> discards the
  current state; \<^verbatim>\<open>discardOnSuccess\<close> discards the current state only if the given
  transition logic executed without throwing, and then returns the next state.

  State objects live in a store and are referred to by their index; the collaborators
  (backend and ledger) are the component \<open>world\<close>. The transition logic reads the data of
  the current state, acts on the world, and either throws or gives the data of the next
  state, which is constructed as a new object that is not discarded.
\<close>

record 'a StateObject =
  discarded :: bool
  stateData :: 'a

record ('a, 'w) Store =
  objects :: "'a StateObject list"
  world :: 'w

type_synonym ('a, 'w) action = "'w \<Rightarrow> 'a \<Rightarrow> 'w \<times> (js_error + 'a)"

text \<open>Modelled from the spec: \<^verbatim>\<open>ensureCurrent\<close> throws if this state was discarded.\<close>

definition ensureCurrent :: "'a StateObject \<Rightarrow> js_error + unit" where
  "ensureCurrent st = (if discarded st then Inl StaleStateError else Inr ())"

text \<open>Modelled from the spec: \<^verbatim>\<open>discard\<close> discards the current state.\<close>

definition discard :: "nat \<Rightarrow> ('a, 'w) Store \<Rightarrow> ('a, 'w) Store" where
  "discard r s = s\<lparr> objects := (objects s)[r := (objects s ! r)\<lparr> discarded := True \<rparr>] \<rparr>"

text \<open>
  Modelled from the spec: \<^verbatim>\<open>discardOnSuccess\<close> runs the transition logic; if it throws,
  the error is propagated and the current state is not discarded; otherwise the current
  state is discarded and the next state is returned.
\<close>

definition discardOnSuccess ::
  "nat \<Rightarrow> ('a, 'w) action \<Rightarrow> ('a, 'w) Store \<Rightarrow> ('a, 'w) Store \<times> (js_error + nat)" where
  "discardOnSuccess r action s =
     (case action (world s) (stateData (objects s ! r)) of
        (w, Inl e) \<Rightarrow> (s\<lparr> world := w \<rparr>, Inl e)
      | (w, Inr next) \<Rightarrow>
          (let s1 = discard r (s\<lparr> world := w \<rparr>)
           in (s1\<lparr> objects := objects s1 @ [\<lparr> discarded = False, stateData = next \<rparr>] \<rparr>,
               Inr (length (objects s1)))))"

text \<open>
  Modelled from the spec: a transition operation of a state object first asserts that the
  state has not been discarded, then performs the side-effecting operation; on success
  it marks the current object discarded and constructs the new state, on failure it leaves
  the current object live and propagates the error. A reference outside the store is no
  object at all (\<^verbatim>\<open>undefined\<close>).
\<close>

definition transition ::
  "nat \<Rightarrow> ('a, 'w) action \<Rightarrow> ('a, 'w) Store \<Rightarrow> ('a, 'w) Store \<times> (js_error + nat)" where
  "transition r action s =
     (if r < length (objects s) then
        (case ensureCurrent (objects s ! r) of
           Inl e \<Rightarrow> (s, Inl e)
         | Inr u \<Rightarrow> discardOnSuccess r action s)
      else (s, Inl TypeError))"

text \<open>
  Modelled from the spec: a sequence of transition calls, each on some state object of
  the store, with the result of each call.
\<close>

fun run ::
  "(nat \<times> ('a, 'w) action) list \<Rightarrow> ('a, 'w) Store
     \<Rightarrow> ('a, 'w) Store \<times> (js_error + nat) list" where
  "run [] s = (s, [])"
| "run ((r, action) # ops) s =
     (case transition r action s of
        (s1, res) \<Rightarrow> (case run ops s1 of (s2, results) \<Rightarrow> (s2, res # results)))"

section \<open>Concrete scenarios\<close>

text \<open>Inputs at which the operations above are evaluated further down.\<close>

definition demoApi :: TokenApi where
  "demoApi = \<lparr> jsonParse = (\<lambda>s. None), isHexAddress = (\<lambda>s. False),
               isValidBech32Address = (\<lambda>s. False), isValidAccountId = (\<lambda>s. False) \<rparr>"

definition demoHash :: "string \<Rightarrow> string" where
  "demoHash s = ''#'' @ s"

definition badKusamaToken :: ItemTokenWithRestrictedType where
  "badKusamaToken = \<lparr> token_type = ''singular_kusama'', token_id = ''not a valid id'', issuance = 1 \<rparr>"

text \<open>
  A LOC owned by alice, open, with one issuer known to the backend (bob) and one issuer
  selected on chain (carol).
\<close>

definition ownerAccount :: AccountId where
  "ownerAccount = \<lparr> acc_type = ''Polkadot'', acc_address = ''alice'' \<rparr>"

definition strangerAccount :: AccountId where
  "strangerAccount = \<lparr> acc_type = ''Polkadot'', acc_address = ''mallory'' \<rparr>"

definition bob :: VerifiedIssuerIdentity where
  "bob = \<lparr> vii_address = ''bob'',
           vii_identity = \<lparr> firstName = ''Bob'', lastName = ''Builder'' \<rparr>,
           vii_identityLocId = ''id-bob'', vii_selected = Some True \<rparr>"

definition carol :: VerifiedIssuerType where
  "carol = \<lparr> vit_address = ''carol'', vit_identityLocId = ''id-carol'' \<rparr>"

definition openRequest :: LocRequest where
  "openRequest =
     \<lparr> ownerAddress = ''alice'',
       requesterAddress = Some \<lparr> acc_type = ''Polkadot'', acc_address = ''requester'' \<rparr>,
       locType = Transaction, status = OPEN, req_id = ''loc-1'', selectedIssuers = [bob] \<rparr>"

definition chainIssuers :: LocBatch where
  "chainIssuers =
     \<lparr> getAvailableVerifiedIssuers = Map.empty,
       getLocsVerifiedIssuers = [''loc-1'' \<mapsto> [carol]] \<rparr>"

text \<open>
  An item that only the chain knows, an item that only the backend lists, and the two
  pairs of sources that hold them.
\<close>

definition chainTerms ::
  "ChainTermsAndConditionsElement list \<Rightarrow> OffchainTermsAndConditionsElement list
     \<Rightarrow> ChainTermsAndConditionsElement list" where
  "chainTerms onchain offchain = onchain"

definition itemA :: CollectionItem where
  "itemA = \<lparr> ci_id = ''0xaa'', ci_description = ''0xd1'', ci_files = [], ci_token = None,
             ci_restrictedDelivery = False, ci_termsAndConditions = [] \<rparr>"

definition offchainB :: OffchainCollectionItem where
  "offchainB = \<lparr> oci_collectionLocId = ''loc-1'', oci_itemId = ''0xbb'', oci_addedOn = ''2023-06-01'',
                 oci_description = Some ''Item B'', oci_files = [], oci_termsAndConditions = [],
                 oci_token = None \<rparr>"

definition notFound :: js_error where
  "notFound = Error ''Request failed with status code 404''"

definition nodeWithA :: Node where
  "nodeWithA =
     \<lparr> queryCollectionItem = (\<lambda>locId itemId. if itemId = ''0xaa'' then Some itemA else None),
       queryCollectionItems = (\<lambda>locId. [itemA]),
       queryTokensRecord = (\<lambda>locId recordId. None) \<rparr>"

definition emptyBackend :: Backend where
  "emptyBackend =
     \<lparr> getItem = (\<lambda>locId itemId. Inl notFound),
       getItems = (\<lambda>locId. Inr []),
       getRecord = (\<lambda>locId recordId. Inl notFound) \<rparr>"

definition emptyNode :: Node where
  "emptyNode =
     \<lparr> queryCollectionItem = (\<lambda>locId itemId. None),
       queryCollectionItems = (\<lambda>locId. []),
       queryTokensRecord = (\<lambda>locId recordId. None) \<rparr>"

definition backendWithB :: Backend where
  "backendWithB =
     \<lparr> getItem = (\<lambda>locId itemId. if itemId = ''0xbb'' then Inr offchainB else Inl notFound),
       getItems = (\<lambda>locId. Inr [offchainB]),
       getRecord = (\<lambda>locId recordId. Inl notFound) \<rparr>"

text \<open>
  An item and a record without files, and collaborators: one whose ledger rejects every
  submission, and one where the cancellation is rejected as well.
\<close>

definition plainItem :: AddCollectionItemParams where
  "plainItem =
     \<lparr> p_itemId = ''0xaa'', p_itemDescription = ''An item'', p_locId = ''loc-1'',
       p_itemFiles = None, p_itemToken = None, p_restrictedDelivery = None,
       p_logionClassification = None, p_specificLicenses = None, p_creativeCommons = None \<rparr>"

definition plainRecord :: AddTokensRecordParams where
  "plainRecord =
     \<lparr> r_recordId = ''0xcc'', r_description = ''A record'', r_locId = ''loc-1'', r_files = [] \<rparr>"

definition ledgerError :: js_error where
  "ledgerError = Error ''Transaction failed''"

definition serverError :: js_error where
  "serverError = Error ''Request failed with status code 500''"

fun ledgerRejects :: "call \<Rightarrow> js_error option" where
  "ledgerRejects (SignAddCollectionItem x) = Some ledgerError"
| "ledgerRejects (SignAddTokensRecord y) = Some ledgerError"
| "ledgerRejects c = None"

fun ledgerAndCancelReject :: "call \<Rightarrow> js_error option" where
  "ledgerAndCancelReject (SignAddCollectionItem x) = Some ledgerError"
| "ledgerAndCancelReject (SignAddTokensRecord y) = Some ledgerError"
| "ledgerAndCancelReject (DeleteItem locId itemId) = Some serverError"
| "ledgerAndCancelReject (DeleteRecord locId recordId) = Some serverError"
| "ledgerAndCancelReject c = None"

definition allSucceed :: "call \<Rightarrow> js_error option" where
  "allSucceed c = None"

text \<open>The same item with both a logion classification and a creative commons element.\<close>

definition bothLicences :: AddCollectionItemParams where
  "bothLicences =
     plainItem
       \<lparr> p_logionClassification :=
           Some \<lparr> tce_type = ''logion_classification'', tce_tcLocId = ''loc-2'', tce_details = ''{}'' \<rparr>,
         p_creativeCommons :=
           Some \<lparr> tce_type = ''CC4.0'', tce_tcLocId = ''loc-3'', tce_details = ''BY-NC-SA'' \<rparr> \<rparr>"

definition bothLicencesRestricted :: AddCollectionItemParams where
  "bothLicencesRestricted = bothLicences \<lparr> p_restrictedDelivery := Some True \<rparr>"



text \<open>Three endpoints, of which the second is unreachable.\<close>

definition threeEndpoints :: "string list option \<Rightarrow> string list" where
  "threeEndpoints legalOfficers = [''https://a'', ''https://b'', ''https://c'']"

definition answers :: "string \<Rightarrow> FetchLocRequestSpecification \<Rightarrow> js_error + string list" where
  "answers endpoint specs =
     (if endpoint = ''https://a'' then Inr [''loc of a'']
      else if endpoint = ''https://b'' then Inl (Error ''Network Error'')
      else Inr [''loc of c''])"

text \<open>
  A store with one live draft, the same store after the draft was submitted, and two
  transition logics: one that succeeds and one that the backend rejects.
\<close>

definition draftStore :: "(string, nat) Store" where
  "draftStore = \<lparr> objects = [\<lparr> discarded = False, stateData = ''Draft'' \<rparr>], world = 0 \<rparr>"

definition submittedStore :: "(string, nat) Store" where
  "submittedStore =
     \<lparr> objects = [\<lparr> discarded = True, stateData = ''Draft'' \<rparr>,
                  \<lparr> discarded = False, stateData = ''Pending'' \<rparr>],
       world = 1 \<rparr>"

definition submitAction :: "(string, nat) action" where
  "submitAction w d = (Suc w, Inr ''Pending'')"

definition rejectedAction :: "(string, nat) action" where
  "rejectedAction w d = (w, Inl (BackendError serverError))"

text \<open>What the owner and what a stranger are shown for \<open>openRequest\<close>.\<close>

definition ownerView :: LocVerifiedIssuers where
  "ownerView =
     \<lparr> verifiedIssuer = False,
       issuers = [\<lparr> vi_firstName = ''Bob'', vi_lastName = ''Builder'',
                    vi_identityLocId = ''id-bob'', vi_address = ''bob'',
                    vi_selected = Some False \<rparr>,
                  \<lparr> vi_firstName = [], vi_lastName = [],
                    vi_identityLocId = ''id-carol'', vi_address = ''carol'',
                    vi_selected = Some True \<rparr>] \<rparr>"

definition strangerView :: LocVerifiedIssuers where
  "strangerView =
     \<lparr> verifiedIssuer = False,
       issuers = [\<lparr> vi_firstName = [], vi_lastName = [],
                    vi_identityLocId = ''id-carol'', vi_address = ''carol'',
                    vi_selected = None \<rparr>] \<rparr>"

text \<open>The calls \<open>addCollectionItem\<close> and \<open>addTokensRecord\<close> issue for the plain item and record.\<close>

definition plainItemCalls :: "call list" where
  "plainItemCalls =
     [PostItem ''loc-1''
        \<lparr> coi_itemId = ''0xaa'', coi_description = ''An item'', coi_files = [],
          coi_termsAndConditions = [], coi_token = None \<rparr>,
      SignAddCollectionItem
        \<lparr> x_locId = ''loc-1'', x_itemId = ''0xaa'', x_description = ''#An item'',
          x_files = [], x_token = None, x_restrictedDelivery = False,
          x_termsAndConditions = [] \<rparr>,
      DeleteItem ''loc-1'' ''0xaa'']"

definition plainRecordCalls :: "call list" where
  "plainRecordCalls =
     [PostRecord ''loc-1''
        \<lparr> cor_recordId = ''0xcc'', cor_description = ''A record'', cor_files = [] \<rparr>,
      SignAddTokensRecord
        \<lparr> y_locId = ''loc-1'', y_recordId = ''0xcc'', y_description = ''#A record'',
          y_files = [] \<rparr>,
      DeleteRecord ''loc-1'' ''0xcc'']"

definition restrictedDeliveryError :: js_error where
  "restrictedDeliveryError =
     Error ''Restricted delivery requires a defined underlying token as well as at least one file''"

section \<open>Theorems\<close>

subsection \<open>Validation of the logion classification\<close>

lemma parameters_push [simp]: "parameters (push m v) = parameters v"
  by (simp add: push_def)

lemma errors_push [simp]: "errors (push m v) = errors v @ [m]"
  by (simp add: push_def)

lemma includes_push [simp]: "includesCode (push m v) c = includesCode v c"
  by (simp add: includesCode_def)

lemma parameters_mutuallyExclusive [simp]:
  "parameters (mutuallyExclusive a b v) = parameters v"
  by (simp add: mutuallyExclusive_def)

lemma errors_mutuallyExclusive:
  "errors (mutuallyExclusive a b v) =
     errors v @ (if violates f (parameters v) (Exclusive a b) then [report (Exclusive a b)] else [])"
  by (simp add: mutuallyExclusive_def includesCode_def)

lemma parameters_codePresentForCondition [simp]:
  "parameters (codePresentForCondition c cond m v) = parameters v"
  by (simp add: codePresentForCondition_def Let_def)

lemma errors_codePresentForCondition:
  "errors (codePresentForCondition c cond m v) =
     errors v @ (if (c \<in> set (transferredRights (parameters v))) \<noteq> cond (parameters v)
                 then [m] else [])"
  by (auto simp: codePresentForCondition_def Let_def includesCode_def)

lemma parameters_validIsoDate [simp]:
  "parameters (validIsoDate f d v) = parameters v"
  by (simp add: validIsoDate_def split: option.splits)

lemma errors_validIsoDate:
  "errors (validIsoDate f (expiration (parameters v)) v) =
     errors v @ (if violates f (parameters v) ExpirationIsIsoDate
                 then [report ExpirationIsIsoDate] else [])"
  by (simp add: validIsoDate_def expirationSet_def split: option.splits)

lemma errors_of_chain:
  "errors
     (validIsoDate f (expiration p)
       (codePresentForCondition REG regionalLimitSet regMessage
         (codePresentForCondition TIME expirationSet timeMessage
           (mutuallyExclusive TIME NOTIME
             (mutuallyExclusive REG WW
               (mutuallyExclusive EXCL NOEX
                 (mutuallyExclusive COM_NOMOD COM_MOD
                   (mutuallyExclusive PER_PRIV PER_PUB
                     (newValidator p)))))))))
   = map report (violations f p)"
proof -
  let ?v5 = "mutuallyExclusive TIME NOTIME
               (mutuallyExclusive REG WW
                 (mutuallyExclusive EXCL NOEX
                   (mutuallyExclusive COM_NOMOD COM_MOD
                     (mutuallyExclusive PER_PRIV PER_PUB (newValidator p)))))"
  let ?v7 = "codePresentForCondition REG regionalLimitSet regMessage
               (codePresentForCondition TIME expirationSet timeMessage ?v5)"
  have p5: "parameters ?v5 = p" by (simp add: newValidator_def)
  have p7: "parameters ?v7 = p" by (simp add: newValidator_def)
  have e5: "errors ?v5 =
      map report (filter (violates f p)
        [Exclusive PER_PRIV PER_PUB, Exclusive COM_NOMOD COM_MOD, Exclusive EXCL NOEX,
         Exclusive REG WW, Exclusive TIME NOTIME])"
    by (simp add: errors_mutuallyExclusive [where f = f] newValidator_def)
  have e7: "errors ?v7 = errors ?v5 @
      map report (filter (violates f p) [TimeIffExpiration, RegIffRegionalLimit])"
    by (simp add: errors_codePresentForCondition newValidator_def)
  have e8: "errors (validIsoDate f (expiration p) ?v7) = errors ?v7 @
      map report (filter (violates f p) [ExpirationIsIsoDate])"
    using errors_validIsoDate [of f ?v7] by (simp only: p7) simp
  have "errors (validIsoDate f (expiration p) ?v7) =
      map report (filter (violates f p)
        ([Exclusive PER_PRIV PER_PUB, Exclusive COM_NOMOD COM_MOD, Exclusive EXCL NOEX,
          Exclusive REG WW, Exclusive TIME NOTIME]
         @ [TimeIffExpiration, RegIffRegionalLimit] @ [ExpirationIsIsoDate]))"
    unfolding e8 e7 e5 by (simp only: filter_append map_append append_assoc)
  then show ?thesis by (simp add: violations_def allRules_def)
qed

text \<open>
  C4. Constructing a \<open>LogionClassification\<close> with validity checking enabled fails exactly
  when the parameters violate at least one of the eight rules (the five mutual exclusions,
  TIME if and only if an expiration is set, REG if and only if the regional limit is
  non-empty, a set expiration is a valid ISO date); the single error thrown then carries the
  reports of all the violated rules, joined by \<open>; \<close>, and not only the first one.
\<close>

theorem LogionClassification_validity:
  "newLogionClassification isValidISO locId p True =
     (if violations isValidISO p = []
      then Inr \<lparr> lc_tcLocId = locId, lc_parameters = p \<rparr>
      else Inl (Error (join ''; '' (map report (violations isValidISO p)))))"
  by (simp add: newLogionClassification_def checkValidity_def validOrThrow_def errors_of_chain)

theorem LogionClassification_validity_witness:
  "newLogionClassification (\<lambda>d. d = ''2025-01-01'') ''loc''
     \<lparr> transferredRights = [PER_PRIV, PER_PUB, TIME], regionalLimit = None,
       expiration = None \<rparr> True =
   Inl (Error (''Transferred rights are mutually exclusive: PER-PRIV and PER-PUB; ''
               @ ''Transferred right TIME must be set if and only if expiration is set''))
   \<and> newLogionClassification (\<lambda>d. d = ''2025-01-01'') ''loc''
     \<lparr> transferredRights = [PER_PRIV, REG, TIME], regionalLimit = Some [''BE'', ''FR'', ''LU''],
       expiration = Some ''2025-01-01'' \<rparr> True =
   Inr \<lparr> lc_tcLocId = ''loc'',
         lc_parameters = \<lparr> transferredRights = [PER_PRIV, REG, TIME],
           regionalLimit = Some [''BE'', ''FR'', ''LU''], expiration = Some ''2025-01-01'' \<rparr> \<rparr>"
  using LogionClassification_validity [of "\<lambda>d. d = ''2025-01-01''" "''loc''"
      "\<lparr> transferredRights = [PER_PRIV, PER_PUB, TIME], regionalLimit = None,
         expiration = None \<rparr>"]
    LogionClassification_validity [of "\<lambda>d. d = ''2025-01-01''" "''loc''"
      "\<lparr> transferredRights = [PER_PRIV, REG, TIME], regionalLimit = Some [''BE'', ''FR'', ''LU''],
         expiration = Some ''2025-01-01'' \<rparr>"]
  by (simp add: violations_def allRules_def expirationSet_def regionalLimitSet_def
        exclusiveMessage_def timeMessage_def)

subsection \<open>Discard-once ownership of state objects\<close>

lemma transition_stale:
  "r < length (objects s) \<Longrightarrow> discarded (objects s ! r) \<Longrightarrow>
   transition r action s = (s, Inl StaleStateError)"
  by (simp add: transition_def ensureCurrent_def)

lemma transition_success:
  assumes "r < length (objects s)" and "\<not> discarded (objects s ! r)"
      and "action (world s) (stateData (objects s ! r)) = (w, Inr nxt)"
  shows "transition r action s =
           (\<lparr> objects = (objects s)[r := (objects s ! r)\<lparr> discarded := True \<rparr>]
                          @ [\<lparr> discarded = False, stateData = nxt \<rparr>],
              world = w \<rparr>, Inr (length (objects s)))"
  using assms
  by (simp add: transition_def ensureCurrent_def discardOnSuccess_def discard_def Let_def)

lemma transition_failure:
  assumes "r < length (objects s)" and "\<not> discarded (objects s ! r)"
      and "action (world s) (stateData (objects s ! r)) = (w, Inl e)"
  shows "transition r action s = (s\<lparr> world := w \<rparr>, Inl e)"
  using assms
  by (simp add: transition_def ensureCurrent_def discardOnSuccess_def)

text \<open>No transition, on whatever object, revives an object that was discarded.\<close>

lemma transition_keeps_discarded:
  assumes "r < length (objects s)" and "discarded (objects s ! r)"
      and "transition q action s = (s', res)"
  shows "r < length (objects s') \<and> discarded (objects s' ! r)"
proof (cases "q < length (objects s) \<and> \<not> discarded (objects s ! q)")
  case False
  then have "s' = s"
    using assms(3) by (auto simp: transition_def ensureCurrent_def split: if_splits)
  then show ?thesis using assms by simp
next
  case True
  obtain w out where act: "action (world s) (stateData (objects s ! q)) = (w, out)"
    by (cases "action (world s) (stateData (objects s ! q))")
  show ?thesis
  proof (cases out)
    case (Inl e)
    then have "s' = s\<lparr> world := w \<rparr>"
      using transition_failure [of q s action w e] True act assms(3) by simp
    then show ?thesis using assms by simp
  next
    case (Inr nxt)
    then have s': "objects s' = (objects s)[q := (objects s ! q)\<lparr> discarded := True \<rparr>]
                          @ [\<lparr> discarded = False, stateData = nxt \<rparr>]"
      using transition_success [of q s action w nxt] True act assms(3) by auto
    show ?thesis
      using assms(1,2) unfolding s'
      by (cases "r = q") (simp_all add: nth_append)
  qed
qed

lemma run_stale:
  assumes "r < length (objects s)" and "discarded (objects s ! r)"
      and "run ops s = (s', results)"
  shows "r < length (objects s') \<and> discarded (objects s' ! r) \<and> length results = length ops
       \<and> (\<forall>k < length ops. fst (ops ! k) = r \<longrightarrow> results ! k = Inl StaleStateError)"
  using assms
proof (induction ops arbitrary: s s' results)
  case Nil
  then show ?case by simp
next
  case (Cons op ops)
  obtain q action where op: "op = (q, action)" by (cases op)
  obtain s1 res where t: "transition q action s = (s1, res)"
    by (cases "transition q action s")
  obtain s2 rest where r2: "run ops s1 = (s2, rest)" by (cases "run ops s1")
  from Cons.prems(3) op t r2 have eq: "s' = s2" "results = res # rest" by auto
  from transition_keeps_discarded [OF Cons.prems(1,2) t]
  have k1: "r < length (objects s1)" "discarded (objects s1 ! r)" by auto
  from Cons.IH [OF k1 r2]
  have ih: "r < length (objects s2)" "discarded (objects s2 ! r)" "length rest = length ops"
       "\<forall>k < length ops. fst (ops ! k) = r \<longrightarrow> rest ! k = Inl StaleStateError" by auto
  have head: "q = r \<longrightarrow> res = Inl StaleStateError"
    using transition_stale [OF Cons.prems(1,2), of action] t by auto
  show ?case
    unfolding eq op using ih head
    by (auto simp: nth_Cons split: nat.splits)
qed

text \<open>
  C1. For every state object \<open>r\<close> of the store and every transition operation on it:
  if the object was already discarded the operation fails with \<open>StaleStateError\<close> and
  changes neither the store nor the world; if the operation's logic succeeds, the source
  object is discarded afterwards and the returned new object is not; if it fails, the
  objects are as before (the source stays live) and the error is propagated. Hence in
  every sequence of transitions that starts where \<open>r\<close> is discarded, \<open>r\<close> stays discarded
  and every operation on \<open>r\<close> fails with \<open>StaleStateError\<close>.
\<close>

theorem discard_once:
  assumes "r < length (objects s)"
  shows "(discarded (objects s ! r) \<longrightarrow>
            transition r action s = (s, Inl StaleStateError))
       \<and> (\<not> discarded (objects s ! r) \<longrightarrow>
            (\<forall>w nxt. action (world s) (stateData (objects s ! r)) = (w, Inr nxt) \<longrightarrow>
               (\<exists>s' r'. transition r action s = (s', Inr r')
                  \<and> discarded (objects s' ! r)
                  \<and> r' < length (objects s') \<and> \<not> discarded (objects s' ! r')
                  \<and> stateData (objects s' ! r') = nxt)))
       \<and> (\<not> discarded (objects s ! r) \<longrightarrow>
            (\<forall>w e. action (world s) (stateData (objects s ! r)) = (w, Inl e) \<longrightarrow>
               (\<exists>s'. transition r action s = (s', Inl e) \<and> objects s' = objects s)))
       \<and> (discarded (objects s ! r) \<longrightarrow>
            (\<forall>ops s' results. run ops s = (s', results) \<longrightarrow>
               discarded (objects s' ! r)
               \<and> (\<forall>k < length ops. fst (ops ! k) = r \<longrightarrow> results ! k = Inl StaleStateError)))"
proof (intro conjI impI allI)
  assume "discarded (objects s ! r)"
  then show "transition r action s = (s, Inl StaleStateError)"
    using assms by (rule transition_stale [rotated])
next
  fix w nxt
  assume a: "\<not> discarded (objects s ! r)"
     "action (world s) (stateData (objects s ! r)) = (w, Inr nxt)"
  show "\<exists>s' r'. transition r action s = (s', Inr r')
                  \<and> discarded (objects s' ! r)
                  \<and> r' < length (objects s') \<and> \<not> discarded (objects s' ! r')
                  \<and> stateData (objects s' ! r') = nxt"
    using transition_success [of r s action w nxt] a assms by (simp add: nth_append)
next
  fix w e
  assume a: "\<not> discarded (objects s ! r)"
     "action (world s) (stateData (objects s ! r)) = (w, Inl e)"
  show "\<exists>s'. transition r action s = (s', Inl e) \<and> objects s' = objects s"
    using transition_failure [of r s action w e] a assms by simp
next
  fix ops :: "(nat \<times> ('a, 'b) action) list" and s' results
  assume "discarded (objects s ! r)" "run ops s = (s', results)"
  from run_stale [OF assms this] show "discarded (objects s' ! r)" by simp
next
  fix ops :: "(nat \<times> ('a, 'b) action) list" and s' results k
  assume "discarded (objects s ! r)" "run ops s = (s', results)" "k < length ops" "fst (ops ! k) = r"
  with run_stale [OF assms, of ops s' results] show "results ! k = Inl StaleStateError" by simp
qed

text \<open>
  A draft is submitted, which discards it; a rejected transition leaves the draft as it
  was; and whatever is tried afterwards on the discarded draft is stale.
\<close>

theorem discard_once_witness:
  "0 < length (objects draftStore)
   \<and> \<not> discarded (objects draftStore ! 0)
   \<and> transition 0 submitAction draftStore = (submittedStore, Inr 1)
   \<and> transition 0 rejectedAction draftStore = (draftStore, Inl (BackendError serverError))
   \<and> discarded (objects submittedStore ! 0)
   \<and> transition 0 submitAction submittedStore = (submittedStore, Inl StaleStateError)
   \<and> run [(0, submitAction), (1, rejectedAction), (0, rejectedAction)] submittedStore =
       (submittedStore,
        [Inl StaleStateError, Inl (BackendError serverError), Inl StaleStateError])"
  using discard_once [of 0 draftStore submitAction]
    discard_once [of 0 draftStore rejectedAction]
    discard_once [of 0 submittedStore submitAction]
  by (simp add: draftStore_def submittedStore_def submitAction_def rejectedAction_def
        transition_def ensureCurrent_def discardOnSuccess_def discard_def)

subsection \<open>Aggregation over the legal officers' endpoints\<close>

lemma aggregate_settle:
  "aggregateArrays (settle query endpoints) =
     concat (map (\<lambda>endpoint. case query endpoint of Inl e \<Rightarrow> [] | Inr rs \<Rightarrow> rs) endpoints)"
  unfolding aggregateArrays_def
  by (induction endpoints) (auto split: sum.splits)

lemma no_success_settle:
  "(succeeded (settle query endpoints) = []) = (\<forall>endpoint \<in> set endpoints. isl (query endpoint))"
  by (induction endpoints) (auto split: sum.splits)

lemma failed_settle:
  "map fst (failed (settle query endpoints)) = filter (\<lambda>endpoint. isl (query endpoint)) endpoints"
  by (induction endpoints) (auto split: sum.splits)

text \<open>
  C2. \<open>fetchAll\<close> over any list of endpoints: every endpoint is queried on its own, an
  endpoint that fails contributes nothing and does not abort its siblings, and the
  returned array is the flattened concatenation of the arrays of the endpoints that
  succeeded, each in its own order. (Only when every one of at least one endpoint fails
  is an error raised.) The concurrency of the queries is not part of the model: the
  outcome at one endpoint is independent of the others.
\<close>

theorem fetchAll_concatenates_successes:
  "fetchAll initState putLocRequest currentAddress params =
     (let endpoints = initState (Option.bind params fa_legalOfficers);
          specs = (case Option.bind params fa_spec of
                     Some sp \<Rightarrow> sp
                   | None \<Rightarrow> defaultSpec currentAddress)
      in if endpoints \<noteq> [] \<and> (\<forall>endpoint \<in> set endpoints. isl (putLocRequest endpoint specs))
         then Inl allEndpointsFailed
         else Inr (concat (map (\<lambda>endpoint. case putLocRequest endpoint specs of
                                             Inl e \<Rightarrow> []
                                           | Inr requests \<Rightarrow> requests) endpoints)))"
  unfolding fetchAll_def MultiSourceHttpClient_fetch_def Let_def
  by (simp add: aggregate_settle no_success_settle del: settle.simps)

text \<open>
  Three endpoints of which the second fails while the first and the third return one item
  each: \<open>fetchAll\<close> returns exactly these two items and raises no error.
\<close>

theorem fetchAll_concatenates_successes_witness:
  "fetchAll threeEndpoints answers ownerAccount None = Inr [''loc of a'', ''loc of c'']"
  using fetchAll_concatenates_successes [of threeEndpoints answers ownerAccount None]
  by (simp add: threeEndpoints_def answers_def)

subsection \<open>Collection items and tokens records: which source defines existence\<close>

text \<open>
  The two single-entry queries let the chain decide: without an entry on chain the result
  is \<^verbatim>\<open>undefined\<close> whatever the backend holds, and with one a failing backend lookup is
  rethrown as a backend error.
\<close>

lemma getCollectionItem_absent:
  "queryCollectionItem node locId itemId = None \<Longrightarrow>
   getCollectionItem newTC node backend locId itemId = Inr None"
  by (simp add: getCollectionItem_def)

lemma getCollectionItem_present:
  "queryCollectionItem node locId itemId = Some onchainItem \<Longrightarrow>
   getCollectionItem newTC node backend locId itemId =
     (case getItem backend locId itemId of
        Inl e \<Rightarrow> Inl (BackendError e)
      | Inr offchainItem \<Rightarrow> Inr (Some (mergeItems newTC onchainItem offchainItem)))"
  by (simp add: getCollectionItem_def)

lemma getTokensRecord_absent:
  "queryTokensRecord node locId recordId = None \<Longrightarrow>
   getTokensRecord fromHex node backend locId recordId = Inr None"
  by (simp add: getTokensRecord_def)

lemma getTokensRecord_present:
  "queryTokensRecord node locId recordId = Some onchainRecord \<Longrightarrow>
   getTokensRecord fromHex node backend locId recordId =
     (case getRecord backend locId recordId of
        Inl e \<Rightarrow> Inl (BackendError e)
      | Inr offchainRecord \<Rightarrow>
          (case mergeRecords fromHex onchainRecord offchainRecord of
             Inl e \<Rightarrow> Inl (BackendError e)
           | Inr merged \<Rightarrow> Inr (Some merged)))"
  by (simp add: getTokensRecord_def)

text \<open>
  In the merged item the hash, the size and the terms come from the chain, the names, the
  content types and the uploaded flags from the backend.
\<close>

lemma mergeItems_files:
  "map uf_hash (uci_files (mergeItems newTC onchainItem offchainItem)) =
     map if_hash (ci_files onchainItem)
   \<and> map uf_size (uci_files (mergeItems newTC onchainItem offchainItem)) =
     map if_size (ci_files onchainItem)
   \<and> uci_termsAndConditions (mergeItems newTC onchainItem offchainItem) =
     newTC (ci_termsAndConditions onchainItem) (oci_termsAndConditions offchainItem)"
  by (simp add: mergeItems_def mergeFile_def comp_def)

text \<open>The list query walks the backend's list instead.\<close>

lemma getCollectionItems_empty_backend:
  "getItems backend locId = Inr [] \<Longrightarrow> getCollectionItems newTC node backend locId = Inr []"
  by (simp add: getCollectionItems_def Let_def)

lemma getCollectionItems_unknown_to_chain:
  "queryCollectionItems node locId = [] \<Longrightarrow> getItems backend locId = Inr (item # rest) \<Longrightarrow>
   getCollectionItems newTC node backend locId = Inl (BackendError TypeError)"
  by (simp add: getCollectionItems_def Let_def)

text \<open>
  C3. The claim: for \<open>getCollectionItem\<close>, \<open>getCollectionItems\<close> and \<open>getTokensRecord\<close> the
  on-chain entry defines existence (absent on chain: the item does not exist, whatever
  the backend holds; present on chain without its backend companion: a backend error).
  The list query does otherwise. With item A on chain and nothing at the backend, the
  single query raises the backend error while the list query returns the empty list; with
  item B at the backend and nothing on chain, the single query returns \<^verbatim>\<open>undefined\<close> while
  the list query raises a backend error that wraps a TypeError.
\<close>

theorem getCollectionItems_follows_backend_list:
  "getCollectionItem chainTerms nodeWithA emptyBackend ''loc-1'' ''0xaa'' = Inl (BackendError notFound)
   \<and> getCollectionItems chainTerms nodeWithA emptyBackend ''loc-1'' = Inr []
   \<and> getCollectionItem chainTerms emptyNode backendWithB ''loc-1'' ''0xbb'' = Inr None
   \<and> getCollectionItems chainTerms emptyNode backendWithB ''loc-1'' = Inl (BackendError TypeError)"
  by (simp add: getCollectionItem_def getCollectionItems_def nodeWithA_def emptyBackend_def
        emptyNode_def backendWithB_def)

subsection \<open>Issuers of a LOC\<close>

lemma getLocIssuers_open:
  assumes "status request = OPEN \<or> status request = CLOSED"
      and "getLocsVerifiedIssuers locBatch (toDecimalString (req_id request)) = Some nodeIssuers"
      and "getLocIssuers toDecimalString (Some cur) request locBatch = Inr result"
  shows "issuers result =
     (if mayReadIdentities cur request nodeIssuers
      then map (fromBackend nodeIssuers) (selectedIssuers request)
           @ map (fromNode (Some True))
               (filter (\<lambda>n. vit_address n \<notin> set (map vii_address (selectedIssuers request)))
                  nodeIssuers)
      else map (fromNode None) nodeIssuers)"
  using assms
  by (auto simp: getLocIssuers_def split: if_splits option.splits sum.splits)

text \<open>
  C5, as the code has it. The claim says that a backend-known issuer that is not yet
  reflected on chain is listed with \<open>selected = true\<close>; the code sets \<open>selected\<close> to whether
  the chain lists the issuer. For a LOC that is open or closed and a caller who may read
  identities (requester, owner or chain-selected issuer): every backend-known issuer is in
  the returned list with the backend's first and last name and with \<open>selected\<close> true
  exactly if the chain lists its address (so false while the chain does not reflect it);
  every chain-selected issuer whose address the backend does not list is in the returned
  list with blank first and last name and \<open>selected = true\<close>.
\<close>

theorem getLocIssuers_authorized:
  assumes "status request = OPEN \<or> status request = CLOSED"
      and "getLocsVerifiedIssuers locBatch (toDecimalString (req_id request)) = Some nodeIssuers"
      and "mayReadIdentities cur request nodeIssuers"
      and "getLocIssuers toDecimalString (Some cur) request locBatch = Inr result"
  shows "(\<forall>b \<in> set (selectedIssuers request).
            \<lparr> vi_firstName = firstName (vii_identity b), vi_lastName = lastName (vii_identity b),
              vi_identityLocId = vii_identityLocId b, vi_address = vii_address b,
              vi_selected = Some (vii_address b \<in> set (map vit_address nodeIssuers)) \<rparr>
            \<in> set (issuers result))
       \<and> (\<forall>n \<in> set nodeIssuers.
            vit_address n \<notin> set (map vii_address (selectedIssuers request)) \<longrightarrow>
            \<lparr> vi_firstName = [], vi_lastName = [],
              vi_identityLocId = vit_identityLocId n, vi_address = vit_address n,
              vi_selected = Some True \<rparr>
            \<in> set (issuers result))"
proof -
  have eq: "issuers result =
      map (fromBackend nodeIssuers) (selectedIssuers request)
      @ map (fromNode (Some True))
          (filter (\<lambda>n. vit_address n \<notin> set (map vii_address (selectedIssuers request)))
             nodeIssuers)"
    using getLocIssuers_open [OF assms(1) assms(2) assms(4)] assms(3) by simp
  show ?thesis
    unfolding eq by (auto simp: fromBackend_def fromNode_def image_iff)
qed

text \<open>
  The owner of \<open>openRequest\<close> is shown bob, whom the backend knows and the chain does not
  list, with \<open>selected = false\<close>, where the claim says \<open>true\<close>; and while the same LOC
  is a draft the owner is shown no issuer at all.
\<close>

theorem getLocIssuers_selected_follows_chain:
  "getLocIssuers id (Some ownerAccount) openRequest chainIssuers =
     Inr \<lparr> verifiedIssuer = False,
           issuers = [\<lparr> vi_firstName = ''Bob'', vi_lastName = ''Builder'',
                        vi_identityLocId = ''id-bob'', vi_address = ''bob'',
                        vi_selected = Some False \<rparr>,
                      \<lparr> vi_firstName = [], vi_lastName = [],
                        vi_identityLocId = ''id-carol'', vi_address = ''carol'',
                        vi_selected = Some True \<rparr>] \<rparr>
   \<and> getLocIssuers id (Some ownerAccount) (openRequest\<lparr> status := DRAFT \<rparr>) chainIssuers =
     Inr \<lparr> verifiedIssuer = False, issuers = [] \<rparr>"
  by (simp add: getLocIssuers_def ownerAccount_def openRequest_def chainIssuers_def
        mayReadIdentities_def isRequester_def isOwner_def isChainSelectedIssuer_def
        fromBackend_def fromNode_def bob_def carol_def EMPTY_LOC_ISSUERS_def)

theorem getLocIssuers_authorized_witness:
  "(status openRequest = OPEN \<or> status openRequest = CLOSED)
   \<and> getLocsVerifiedIssuers chainIssuers (id (req_id openRequest)) = Some [carol]
   \<and> mayReadIdentities ownerAccount openRequest [carol]
   \<and> getLocIssuers id (Some ownerAccount) openRequest chainIssuers = Inr ownerView
   \<and> \<lparr> vi_firstName = ''Bob'', vi_lastName = ''Builder'',
       vi_identityLocId = ''id-bob'', vi_address = ''bob'', vi_selected = Some False \<rparr>
     \<in> set (issuers ownerView)
   \<and> \<lparr> vi_firstName = [], vi_lastName = [],
       vi_identityLocId = ''id-carol'', vi_address = ''carol'', vi_selected = Some True \<rparr>
     \<in> set (issuers ownerView)"
  using getLocIssuers_authorized [of openRequest chainIssuers id "[carol]" ownerAccount ownerView]
  by (simp add: getLocIssuers_def ownerAccount_def openRequest_def chainIssuers_def
        mayReadIdentities_def isRequester_def isOwner_def isChainSelectedIssuer_def
        fromBackend_def fromNode_def bob_def carol_def ownerView_def)

text \<open>
  C9. A caller who is neither the requester of the LOC, nor its owner, nor an issuer the
  chain lists as selected for it: every issuer in the returned list has an empty first
  and last name, and the result is the same whatever the backend holds about the selected
  issuers (replacing the backend's issuer list, identities included, by any other list
  gives the same result).
\<close>

theorem getLocIssuers_unprivileged:
  assumes "\<not> isRequester cur request"
      and "\<not> isOwner cur request"
      and "\<forall>nodeIssuers.
             getLocsVerifiedIssuers locBatch (toDecimalString (req_id request)) = Some nodeIssuers
             \<longrightarrow> \<not> isChainSelectedIssuer cur nodeIssuers"
  shows "(\<forall>result.
            getLocIssuers toDecimalString (Some cur) request locBatch = Inr result \<longrightarrow>
            (\<forall>i \<in> set (issuers result). vi_firstName i = [] \<and> vi_lastName i = []))
       \<and> (\<forall>backendIssuers.
            getLocIssuers toDecimalString (Some cur)
              (request\<lparr> selectedIssuers := backendIssuers \<rparr>) locBatch =
            getLocIssuers toDecimalString (Some cur) request locBatch)"
  using assms
  by (auto simp: getLocIssuers_def mayReadIdentities_def isRequester_def isOwner_def
        EMPTY_LOC_ISSUERS_def fromNode_def
      split: if_splits option.splits sum.splits)

text \<open>
  A stranger is shown carol without names, and is shown the same when the backend lists
  no issuer at all.
\<close>

theorem getLocIssuers_unprivileged_witness:
  "\<not> isRequester strangerAccount openRequest
   \<and> \<not> isOwner strangerAccount openRequest
   \<and> \<not> isChainSelectedIssuer strangerAccount [carol]
   \<and> getLocIssuers id (Some strangerAccount) openRequest chainIssuers = Inr strangerView
   \<and> getLocIssuers id (Some strangerAccount) (openRequest\<lparr> selectedIssuers := [] \<rparr>) chainIssuers
       = Inr strangerView
   \<and> map vi_firstName (issuers strangerView) = [[]]
   \<and> map vi_lastName (issuers strangerView) = [[]]"
  using getLocIssuers_unprivileged [of strangerAccount openRequest chainIssuers id]
  by (simp add: getLocIssuers_def strangerAccount_def openRequest_def chainIssuers_def
        mayReadIdentities_def isRequester_def isOwner_def isChainSelectedIssuer_def
        fromBackend_def fromNode_def bob_def carol_def strangerView_def)

subsection \<open>The message of an invalid token\<close>

lemma validateErcToken_error:
  "validateErcToken api t = Inr (r, obj) \<Longrightarrow> \<not> valid r \<Longrightarrow> truthyString (error r)"
  by (auto simp: validateErcToken_def invalid_def truthyString_def validResult_def quoted_def
      split: option.splits sum.splits if_splits)

lemma validateToken_error:
  "validateToken api t = Inr r \<Longrightarrow> \<not> valid r \<Longrightarrow> truthyString (error r)"
  by (auto simp: validateToken_def invalid_def truthyString_def validResult_def quoted_def
      split: option.splits sum.splits if_splits prod.splits dest: validateErcToken_error)

text \<open>
  Every invalid result of \<open>validateToken\<close> carries an error string, so the branch with the
  detailed message is never taken.
\<close>

lemma validTokenOrThrow_generic:
  "validateToken api t = Inr r \<Longrightarrow> \<not> valid r \<Longrightarrow>
   validTokenOrThrow api t = Inl (Error ''Given token definition is invalid'')"
  by (simp add: validTokenOrThrow_def validateToken_error)

text \<open>
  C6. The claim: when validation reports the token invalid with an error string, the
  thrown message includes that string. At a \<^verbatim>\<open>singular_kusama\<close> token whose id holds
  spaces, validation gives the error string \<open>token ID must be a valid Singular Kusama ID\<close>
  and \<open>validTokenOrThrow\<close> throws the generic message without it.
\<close>

theorem validTokenOrThrow_drops_error_string:
  "validateToken demoApi badKusamaToken =
     Inr \<lparr> valid = False, error = Some ''token ID must be a valid Singular Kusama ID'' \<rparr>
   \<and> validTokenOrThrow demoApi badKusamaToken = Inl (Error ''Given token definition is invalid'')"
  by (simp add: validTokenOrThrow_def validateToken_def isErcNft_def isSingularKusamaId_def
        invalid_def truthyString_def isDigit_def isLower_def isUpper_def between_def
        badKusamaToken_def)

subsection \<open>Compensation of a failed ledger submission\<close>

lemma signAndSendOrCancel_failure:
  "respond submission = Some e \<Longrightarrow>
   signAndSendOrCancel respond submission cancellation log =
     (log @ [submission, cancellation],
      Inl (case respond cancellation of None \<Rightarrow> e | Some e2 \<Rightarrow> BackendError e2))"
  by (simp add: signAndSendOrCancel_def cancelPublicDataSubmission_def split: option.splits)

text \<open>
  What the two operations do when the signed submission fails after the public data was
  announced: the deletion of the announced record is issued once, as the last call, and
  nothing is uploaded; the error thrown is the submission's when the deletion succeeds.
\<close>

lemma failed_submission_outcome:
  "(prepareItem api hashOf params = Inr (files, restricted)
      \<and> termsAndConditionsOf params = Inr tcs
      \<and> respond (announceItem params files tcs) = None
      \<and> respond (submitItem hashOf params files restricted tcs) = Some e
    \<longrightarrow> addCollectionItem api hashOf respond params log =
          (log @ [announceItem params files tcs,
                  submitItem hashOf params files restricted tcs,
                  DeleteItem (p_locId params) (p_itemId params)],
           Inl (case respond (DeleteItem (p_locId params) (p_itemId params)) of
                  None \<Rightarrow> e
                | Some e2 \<Rightarrow> BackendError e2)))
   \<and> (finalizedFiles hashOf (r_files rparams) = Inr rfiles
      \<and> respond (announceRecord rparams rfiles) = None
      \<and> respond (submitRecord hashOf rparams rfiles) = Some e
    \<longrightarrow> addTokensRecord hashOf respond rparams log =
          (log @ [announceRecord rparams rfiles,
                  submitRecord hashOf rparams rfiles,
                  DeleteRecord (r_locId rparams) (r_recordId rparams)],
           Inl (case respond (DeleteRecord (r_locId rparams) (r_recordId rparams)) of
                  None \<Rightarrow> e
                | Some e2 \<Rightarrow> BackendError e2)))"
  by (simp add: addCollectionItem_def addTokensRecord_def signAndSendOrCancel_failure)

text \<open>When only the ledger rejects, the announcement is deleted and the ledger's error thrown.\<close>

lemma ledger_rejection_is_compensated:
  "addCollectionItem demoApi demoHash ledgerRejects plainItem [] =
     (plainItemCalls, Inl ledgerError)
   \<and> addTokensRecord demoHash ledgerRejects plainRecord [] =
     (plainRecordCalls, Inl ledgerError)"
  using failed_submission_outcome
    [of demoApi demoHash plainItem "[]" False "[]" ledgerRejects ledgerError "[]" plainRecord "[]"]
  by (simp add: addCollectionItem_def addTokensRecord_def prepareItem_def
        termsAndConditionsOf_def announceItem_def submitItem_def announceRecord_def
        submitRecord_def signAndSendOrCancel_def cancelPublicDataSubmission_def
        finalizedFiles_def plainItem_def plainRecord_def demoHash_def plainItemCalls_def
        plainRecordCalls_def)

text \<open>
  C7. The claim: when the signed submission of \<open>addCollectionItem\<close> or \<open>addTokensRecord\<close>
  fails after the public data was announced to the backend, the client issues a
  compensating deletion of the announced record and then propagates the original
  submission error; the compensation is best-effort and its own failure is not retried.
  The \<^verbatim>\<open>catch\<close> block awaits the cancellation unguarded and only then rethrows the
  submission's error. At the plain item and the plain record, with a ledger that rejects
  the submission and a backend that rejects the deletion, the deletion is issued once and
  the error thrown is the backend error of the deletion, not the error of the submission.
\<close>

theorem cancellation_failure_masks_submission_error:
  "addCollectionItem demoApi demoHash ledgerAndCancelReject plainItem [] =
     (plainItemCalls, Inl (BackendError serverError))
   \<and> addTokensRecord demoHash ledgerAndCancelReject plainRecord [] =
     (plainRecordCalls, Inl (BackendError serverError))
   \<and> BackendError serverError \<noteq> ledgerError"
  by (simp add: addCollectionItem_def ledgerError_def addTokensRecord_def prepareItem_def
        termsAndConditionsOf_def announceItem_def submitItem_def announceRecord_def
        submitRecord_def signAndSendOrCancel_def cancelPublicDataSubmission_def
        finalizedFiles_def plainItem_def plainRecord_def demoHash_def plainItemCalls_def
        plainRecordCalls_def)

subsection \<open>Logion classification and creative commons exclude each other\<close>

text \<open>
  C10, as the code has it. The claim says the call always throws the mutual-exclusion
  message; the code first finalizes the files, checks the requirements of restricted
  delivery and validates the token, and each of these may throw its own error. A call of
  \<open>addCollectionItem\<close> with both a logion classification and a creative commons element
  always throws and issues no call at all, neither to the backend nor to the ledger; the
  error is the mutual-exclusion message whenever the earlier checks pass, and the error of
  the failing earlier check otherwise.
\<close>

theorem both_licences_rejected_before_any_call:
  assumes "p_logionClassification params \<noteq> None" and "p_creativeCommons params \<noteq> None"
  shows "addCollectionItem api hashOf respond params log =
           (log, Inl (case prepareItem api hashOf params of
                        Inl e \<Rightarrow> e
                      | Inr prepared \<Rightarrow> mutuallyExclusiveError))"
  using assms
  by (simp add: addCollectionItem_def termsAndConditionsOf_def split: sum.splits prod.splits)

text \<open>
  With restricted delivery asked for and no file given, the call with both elements throws
  the error of the restricted-delivery check, which is not the mutual-exclusion message.
\<close>

theorem earlier_check_fails_first:
  "addCollectionItem demoApi demoHash allSucceed bothLicencesRestricted [] =
     ([], Inl restrictedDeliveryError)
   \<and> restrictedDeliveryError \<noteq> mutuallyExclusiveError"
  by (simp add: addCollectionItem_def prepareItem_def bothLicencesRestricted_def
        bothLicences_def plainItem_def restrictedDeliveryError_def mutuallyExclusiveError_def)

theorem both_licences_rejected_before_any_call_witness:
  "p_logionClassification bothLicences \<noteq> None
   \<and> p_creativeCommons bothLicences \<noteq> None
   \<and> prepareItem demoApi demoHash bothLicences = Inr ([], False)
   \<and> addCollectionItem demoApi demoHash allSucceed bothLicences [] = ([], Inl mutuallyExclusiveError)"
  using both_licences_rejected_before_any_call [of bothLicences demoApi demoHash allSucceed "[]"]
  by (simp add: prepareItem_def bothLicences_def plainItem_def)

subsection \<open>Finalizing a file payload\<close>








end
